theory Spec2Isabelle
  imports Complex_Main "HOL-Library.AList"
begin

section \<open>Acknowledged publish of \<open>nats/jetstream/publish.py\<close>\<close>

subsection \<open>Values\<close>

text \<open>
  Python \<open>bytes\<close> and \<open>str\<close> are character lists. A \<open>dict\<close> is an association list
  with unique keys in insertion order: \<open>d[k] = v\<close> overwrites in place or appends, which is
  what \<open>AList.update\<close> computes, and \<open>d.update(other)\<close> stores the items of \<open>other\<close> one
  after the other.
\<close>

type_synonym bytes = string

type_synonym dict = "(string \<times> string) list"

definition setitem :: "dict \<Rightarrow> string \<Rightarrow> string \<Rightarrow> dict" where
  "setitem d k v = AList.update k v d"

definition dict_update :: "dict \<Rightarrow> dict \<Rightarrow> dict" where
  "dict_update d other = fold (\<lambda>(k, v) acc. setitem acc k v) other d"

text \<open>Python's \<open>str\<close> on an \<open>int\<close>: decimal digits, a minus sign for negative numbers.\<close>

fun str_nat :: "nat \<Rightarrow> string" where
  "str_nat n =
     (if n < 10 then [''0123456789'' ! n]
      else str_nat (n div 10) @ [''0123456789'' ! (n mod 10)])"

declare str_nat.simps [simp del]

definition str_int :: "int \<Rightarrow> string" where
  "str_int i = (if i < 0 then CHR ''-'' # str_nat (nat (- i)) else str_nat (nat i))"

text \<open>\<open>str\<close> on a \<open>str\<close> gives the string back.\<close>

definition str_str :: "string \<Rightarrow> string" where
  "str_str x = x"

text \<open>
  The dataclass \<open>PubAck\<close>. The field \<open>stream\<close> is annotated \<open>str\<close>, but \<open>publish\<close> compares it
  with \<open>None\<close>, so it is optional here.
\<close>

record PubAck =
  stream :: "string option"
  sequence :: int
  duplicate :: bool
  domain :: "string option"

text \<open>Of the reply message \<open>Msg\<close> only the body \<open>data\<close> is read.\<close>

record Msg =
  data :: bytes

text \<open>
  Modelled from the spec: the exception classes of \<open>nats.errors\<close> and
  \<open>nats.jetstream.errors\<close>, which are imported with \<open>*\<close> and are not part of the sources at
  hand. The classes are taken to be unrelated by inheritance, so an exception is caught by
  \<open>except NoRespondersError\<close> exactly when it is \<open>NoRespondersError\<close>. \<open>OtherError\<close> stands
  for every further class (a rejected precondition, a lost connection, a reply that does not
  decode).
\<close>

datatype error =
    NoRespondersError
  | TimeoutError
  | InvalidAckError
  | NoStreamResponseError
  | OtherError string

text \<open>
  The reserved header keys are members of \<open>Header\<close> in \<open>nats.jetstream.message\<close>, which is
  not part of the sources at hand; they are a parameter of the model.
\<close>

record Header =
  EXPECTED_LAST_MSG_ID :: string
  EXPECTED_STREAM :: string
  EXPECTED_LAST_SEQ :: string
  EXPECTED_LAST_SUBJECT_SEQUENCE :: string

subsection \<open>Transport, publisher and state\<close>

text \<open>
  One call \<open>client.request(subject, payload, timeout=timeout, headers=headers)\<close>: the four
  arguments that \<open>publish\<close> passes. A request carries the contents of the header dict at
  the time of the call.
\<close>

datatype request =
  Request (req_subject: string) (req_payload: bytes) (req_timeout: real)
    (req_headers: "dict option")

datatype event = EvRequest request | EvSleep real

fun requests :: "event list \<Rightarrow> request list" where
  "requests [] = []"
| "requests (EvRequest r # es) = r # requests es"
| "requests (EvSleep w # es) = requests es"

fun sleeps :: "event list \<Rightarrow> real list" where
  "sleeps [] = []"
| "sleeps (EvRequest r # es) = sleeps es"
| "sleeps (EvSleep w # es) = w # sleeps es"

text \<open>
  The transport behind the client handle is an external collaborator. Its behaviour is a
  function: what the request numbered \<open>n\<close> (counting the requests made before it) gets,
  an exception or a reply.
\<close>

type_synonym transport = "nat \<Rightarrow> request \<Rightarrow> error + Msg"

record Publisher =
  client :: transport
  timeout :: real

text \<open>
  The state a call runs in: the publisher object, the store of dict objects (an address
  is an index into it) and the trace of the requests and sleeps made so far.
\<close>

type_synonym addr = nat

record state =
  self :: Publisher
  heap :: "dict list"
  trace :: "event list"

definition alloc :: "dict \<Rightarrow> state \<Rightarrow> addr \<times> state" where
  "alloc d s = (length (heap s), s\<lparr>heap := heap s @ [d]\<rparr>)"

definition store_setitem :: "addr \<Rightarrow> string \<Rightarrow> string \<Rightarrow> state \<Rightarrow> state" where
  "store_setitem a k v s = s\<lparr>heap := (heap s)[a := setitem (heap s ! a) k v]\<rparr>"

definition store_update :: "addr \<Rightarrow> addr \<Rightarrow> state \<Rightarrow> state" where
  "store_update a b s = s\<lparr>heap := (heap s)[a := dict_update (heap s ! a) (heap s ! b)]\<rparr>"

definition request_of :: "string \<Rightarrow> bytes \<Rightarrow> real \<Rightarrow> addr option \<Rightarrow> state \<Rightarrow> request" where
  "request_of subject payload tmo headers s =
     Request subject payload tmo (map_option (\<lambda>a. heap s ! a) headers)"

definition request :: "string \<Rightarrow> bytes \<Rightarrow> real \<Rightarrow> addr option \<Rightarrow> state \<Rightarrow> (error + Msg) \<times> state" where
  "request subject payload tmo headers s =
     (let r = request_of subject payload tmo headers s
      in (client (self s) (length (requests (trace s))) r,
          s\<lparr>trace := trace s @ [EvRequest r]\<rparr>))"

definition sleep :: "real \<Rightarrow> state \<Rightarrow> state" where
  "sleep w s = s\<lparr>trace := trace s @ [EvSleep w]\<rparr>"

subsection \<open>\<open>Publisher.publish\<close>\<close>

text \<open>
  Lines 72 to 89: \<open>extra_headers\<close> is a fresh dict, filled from the expectation
  parameters; when it is not empty the caller's headers are stored on top of it and it
  becomes the header dict of the request.
\<close>

definition build_headers ::
  "Header \<Rightarrow> addr option \<Rightarrow> string option \<Rightarrow> string option \<Rightarrow> int option \<Rightarrow> int option
     \<Rightarrow> state \<Rightarrow> addr option \<times> state" where
  "build_headers H headers expected_last_msg_id expected_stream expected_last_sequence
       expected_last_subject_sequence s =
     (let (extra_headers, s0) = alloc [] s;
          s1 = (case expected_last_msg_id of None \<Rightarrow> s0
                | Some x \<Rightarrow> store_setitem extra_headers (EXPECTED_LAST_MSG_ID H) (str_str x) s0);
          s2 = (case expected_stream of None \<Rightarrow> s1
                | Some x \<Rightarrow> store_setitem extra_headers (EXPECTED_STREAM H) (str_str x) s1);
          s3 = (case expected_last_sequence of None \<Rightarrow> s2
                | Some n \<Rightarrow> store_setitem extra_headers (EXPECTED_LAST_SEQ H) (str_int n) s2);
          s4 = (case expected_last_subject_sequence of None \<Rightarrow> s3
                | Some n \<Rightarrow>
                    store_setitem extra_headers (EXPECTED_LAST_SUBJECT_SEQUENCE H) (str_int n) s3)
      in if length (heap s4 ! extra_headers) > 0
         then (Some extra_headers,
               (case headers of None \<Rightarrow> s4 | Some h \<Rightarrow> store_update extra_headers h s4))
         else (headers, s4))"

text \<open>
  Lines 93 to 104, the body of the \<open>try\<close>: one request, the reply decoded by
  \<open>parse_json_response\<close> (of \<open>nats.jetstream.api\<close>, a parameter here: it returns a
  \<open>PubAck\<close> or raises), the check of \<open>stream\<close>.
\<close>

definition try_request ::
  "(bytes \<Rightarrow> error + PubAck) \<Rightarrow> string \<Rightarrow> bytes \<Rightarrow> real \<Rightarrow> addr option \<Rightarrow> state
     \<Rightarrow> (error + PubAck) \<times> state" where
  "try_request parse_json_response subject payload tmo headers s =
     (case request subject payload tmo headers s of
        (Inl e, s') \<Rightarrow> (Inl e, s')
      | (Inr msg, s') \<Rightarrow>
          (case parse_json_response (data msg) of
             Inl e \<Rightarrow> (Inl e, s')
           | Inr pub_ack \<Rightarrow>
               if stream pub_ack = None then (Inl InvalidAckError, s')
               else (Inr pub_ack, s')))"

text \<open>
  Lines 91 to 107, the \<open>for\<close> loop over the values of \<open>range(0, retry_attempts)\<close>. It
  leaves with \<open>Some\<close> of a returned \<open>PubAck\<close> or of a raised exception, or runs to its end
  with \<open>None\<close>.
\<close>

fun for_attempt ::
  "(bytes \<Rightarrow> error + PubAck) \<Rightarrow> string \<Rightarrow> bytes \<Rightarrow> real \<Rightarrow> addr option \<Rightarrow> int \<Rightarrow> real
     \<Rightarrow> int list \<Rightarrow> state \<Rightarrow> (error + PubAck) option \<times> state" where
  "for_attempt parse_json_response subject payload tmo headers retry_attempts retry_wait [] s =
     (None, s)"
| "for_attempt parse_json_response subject payload tmo headers retry_attempts retry_wait
       (attempt # rest) s =
     (case try_request parse_json_response subject payload tmo headers s of
        (Inr pub_ack, s') \<Rightarrow> (Some (Inr pub_ack), s')
      | (Inl e, s') \<Rightarrow>
          if e = NoRespondersError then
            for_attempt parse_json_response subject payload tmo headers retry_attempts retry_wait
              rest (if attempt < retry_attempts - 1 then sleep retry_wait s' else s')
          else (Some (Inl e), s'))"

text \<open>
  The whole of \<open>publish\<close>. The parameter \<open>id\<close> of the source is \<open>msg_id\<close> here.
  \<open>range(0, retry_attempts)\<close> is the list \<open>[0..retry_attempts - 1]\<close>.
\<close>

definition publish ::
  "Header \<Rightarrow> (bytes \<Rightarrow> error + PubAck) \<Rightarrow> state \<Rightarrow> string \<Rightarrow> bytes \<Rightarrow> string option
     \<Rightarrow> real option \<Rightarrow> addr option \<Rightarrow> string option \<Rightarrow> string option \<Rightarrow> int option
     \<Rightarrow> int option \<Rightarrow> int \<Rightarrow> real \<Rightarrow> (error + PubAck) \<times> state" where
  "publish H parse_json_response s subject payload msg_id tmo headers expected_last_msg_id
       expected_stream expected_last_sequence expected_last_subject_sequence retry_attempts
       retry_wait =
     (let tmo' = (case tmo of None \<Rightarrow> timeout (self s) | Some t \<Rightarrow> t);
          (headers', s') = build_headers H headers expected_last_msg_id expected_stream
             expected_last_sequence expected_last_subject_sequence s
      in case for_attempt parse_json_response subject payload tmo' headers' retry_attempts
              retry_wait [0..retry_attempts - 1] s' of
           (Some r, s'') \<Rightarrow> (r, s'')
         | (None, s'') \<Rightarrow> (Inl NoStreamResponseError, s''))"

subsection \<open>Notions for stating the properties\<close>

text \<open>
  What the body of the \<open>try\<close> makes of the transport's answer: the exception of the
  transport or of the decoder, \<open>InvalidAckError\<close> for an ack without stream, or the ack.
\<close>

definition ack_of :: "(bytes \<Rightarrow> error + PubAck) \<Rightarrow> error + Msg \<Rightarrow> error + PubAck" where
  "ack_of parse_json_response reply =
     (case reply of
        Inl e \<Rightarrow> Inl e
      | Inr msg \<Rightarrow>
          (case parse_json_response (data msg) of
             Inl e \<Rightarrow> Inl e
           | Inr pub_ack \<Rightarrow> if stream pub_ack = None then Inl InvalidAckError else Inr pub_ack))"

text \<open>
  The events of the attempts \<open>as\<close> when each is answered by no responders: a request,
  and a sleep unless the attempt is the last one allowed.
\<close>

definition attempt_events :: "request \<Rightarrow> int \<Rightarrow> real \<Rightarrow> int list \<Rightarrow> event list" where
  "attempt_events r retry_attempts retry_wait as =
     concat (map (\<lambda>a. EvRequest r # (if a < retry_attempts - 1 then [EvSleep retry_wait] else [])) as)"

text \<open>
  The expectation headers as the specification describes them: start with an empty set and,
  for each expectation parameter that is present, put its string under its reserved key.
\<close>

definition expectation_headers ::
  "Header \<Rightarrow> string option \<Rightarrow> string option \<Rightarrow> int option \<Rightarrow> int option \<Rightarrow> dict" where
  "expectation_headers H expected_last_msg_id expected_stream expected_last_sequence
       expected_last_subject_sequence =
     (let d0 = [];
          d1 = (case expected_last_msg_id of None \<Rightarrow> d0
                | Some x \<Rightarrow> setitem d0 (EXPECTED_LAST_MSG_ID H) (str_str x));
          d2 = (case expected_stream of None \<Rightarrow> d1
                | Some x \<Rightarrow> setitem d1 (EXPECTED_STREAM H) (str_str x));
          d3 = (case expected_last_sequence of None \<Rightarrow> d2
                | Some n \<Rightarrow> setitem d2 (EXPECTED_LAST_SEQ H) (str_int n));
          d4 = (case expected_last_subject_sequence of None \<Rightarrow> d3
                | Some n \<Rightarrow> setitem d3 (EXPECTED_LAST_SUBJECT_SEQUENCE H) (str_int n))
      in d4)"

text \<open>The request that \<open>publish\<close> hands to the transport on every attempt.\<close>

definition outgoing_request ::
  "Header \<Rightarrow> state \<Rightarrow> string \<Rightarrow> bytes \<Rightarrow> real option \<Rightarrow> addr option \<Rightarrow> string option
     \<Rightarrow> string option \<Rightarrow> int option \<Rightarrow> int option \<Rightarrow> request" where
  "outgoing_request H s subject payload tmo headers expected_last_msg_id expected_stream
       expected_last_sequence expected_last_subject_sequence =
     (let tmo' = (case tmo of None \<Rightarrow> timeout (self s) | Some t \<Rightarrow> t);
          (headers', s') = build_headers H headers expected_last_msg_id expected_stream
             expected_last_sequence expected_last_subject_sequence s
      in request_of subject payload tmo' headers' s')"

text \<open>
  The contents of the caller's header dict (\<open>None\<close> when no headers are passed), the
  condition that the caller's reference points to a dict of the store with unique keys, the
  value a header set carries under a key, and the items of a header set.
\<close>

definition caller_headers :: "state \<Rightarrow> addr option \<Rightarrow> dict option" where
  "caller_headers s headers = map_option (\<lambda>a. heap s ! a) headers"

definition valid_headers :: "state \<Rightarrow> addr option \<Rightarrow> bool" where
  "valid_headers s headers =
     (case headers of None \<Rightarrow> True
      | Some a \<Rightarrow> a < length (heap s) \<and> distinct (map fst (heap s ! a)))"

definition lookup :: "dict option \<Rightarrow> string \<Rightarrow> string option" where
  "lookup hs k = (case hs of None \<Rightarrow> None | Some d \<Rightarrow> map_of d k)"

definition items :: "dict option \<Rightarrow> dict" where
  "items hs = (case hs of None \<Rightarrow> [] | Some d \<Rightarrow> d)"

subsection \<open>Example values\<close>

text \<open>
  The header keys as the NATS protocol names them, and a state with a publisher whose
  default timeout is one second, a given transport and a given store.
\<close>

definition example_header :: Header where
  "example_header =
     \<lparr>EXPECTED_LAST_MSG_ID = ''Nats-Expected-Last-Msg-Id'',
      EXPECTED_STREAM = ''Nats-Expected-Stream'',
      EXPECTED_LAST_SEQ = ''Nats-Expected-Last-Sequence'',
      EXPECTED_LAST_SUBJECT_SEQUENCE = ''Nats-Expected-Last-Subject-Sequence''\<rparr>"

definition example_state :: "transport \<Rightarrow> dict list \<Rightarrow> state" where
  "example_state c h = \<lparr>self = \<lparr>client = c, timeout = 1\<rparr>, heap = h, trace = []\<rparr>"

text \<open>
  A transport that answers the first \<open>k\<close> requests with no responders and every later one
  with a given reply, and an ack with a given stream.
\<close>

definition flaky :: "nat \<Rightarrow> error + Msg \<Rightarrow> transport" where
  "flaky k reply = (\<lambda>n r. if n < k then Inl NoRespondersError else reply)"

definition example_ack :: "string option \<Rightarrow> PubAck" where
  "example_ack st = \<lparr>stream = st, sequence = 42, duplicate = False, domain = None\<rparr>"

text \<open>A header dict of a caller that already carries an expected last sequence.\<close>

definition example_dict :: dict where
  "example_dict = [(''Nats-Expected-Last-Sequence'', ''7''), (''Trace-Id'', ''abc'')]"

section \<open>Properties\<close>

subsection \<open>Auxiliary facts\<close>

lemma requests_append: "requests (xs @ ys) = requests xs @ requests ys"
  by (induction xs rule: requests.induct) simp_all

lemma try_request_eq:
  "try_request p subject payload tmo headers s =
     (ack_of p (client (self s) (length (requests (trace s))) (request_of subject payload tmo headers s)),
      s\<lparr>trace := trace s @ [EvRequest (request_of subject payload tmo headers s)]\<rparr>)"
  by (simp add: try_request_def request_def ack_of_def Let_def split: sum.splits)

lemma for_attempt_all_caught:
  "(\<forall>i < length as. ack_of p (client (self s) (length (requests (trace s)) + i)
        (request_of subject payload tmo headers s)) = Inl NoRespondersError) \<Longrightarrow>
   for_attempt p subject payload tmo headers N w as s =
     (None, s\<lparr>trace := trace s @ attempt_events (request_of subject payload tmo headers s) N w as\<rparr>)"
proof (induction as arbitrary: s)
  case Nil
  then show ?case by (simp add: attempt_events_def)
next
  case (Cons a as)
  let ?r = "request_of subject payload tmo headers s"
  let ?s1 = "s\<lparr>trace := trace s @ [EvRequest ?r]\<rparr>"
  let ?s2 = "if a < N - 1 then sleep w ?s1 else ?s1"
  from Cons.prems have h0: "ack_of p (client (self s) (length (requests (trace s))) ?r) = Inl NoRespondersError"
    by (metis add.right_neutral length_greater_0_conv list.distinct(1))
  have r2: "request_of subject payload tmo headers ?s2 = ?r"
    by (simp add: request_of_def sleep_def)
  have n2: "length (requests (trace ?s2)) = Suc (length (requests (trace s)))"
    by (simp add: sleep_def requests_append)
  have "\<forall>i < length as. ack_of p (client (self ?s2) (length (requests (trace ?s2)) + i)
        (request_of subject payload tmo headers ?s2)) = Inl NoRespondersError"
  proof (intro allI impI)
    fix i assume "i < length as"
    then have "Suc i < length (a # as)" by simp
    with Cons.prems have "ack_of p (client (self s) (length (requests (trace s)) + Suc i) ?r) = Inl NoRespondersError"
      by blast
    then show "ack_of p (client (self ?s2) (length (requests (trace ?s2)) + i)
        (request_of subject payload tmo headers ?s2)) = Inl NoRespondersError"
      unfolding r2 n2 by (simp add: sleep_def)
  qed
  from Cons.IH [OF this]
  have "for_attempt p subject payload tmo headers N w as ?s2 =
     (None, ?s2\<lparr>trace := trace ?s2 @ attempt_events ?r N w as\<rparr>)"
    unfolding r2 .
  then show ?case
    using h0 by (simp add: try_request_eq attempt_events_def sleep_def)
qed

lemma attempt_events_append:
  "attempt_events r N w (xs @ ys) = attempt_events r N w xs @ attempt_events r N w ys"
  by (simp add: attempt_events_def)

lemma for_attempt_stop:
  assumes "\<forall>i < length pre. ack_of p (client (self s) (length (requests (trace s)) + i)
        (request_of subject payload tmo headers s)) = Inl NoRespondersError"
    and "ack_of p (client (self s) (length (requests (trace s)) + length pre)
        (request_of subject payload tmo headers s)) = res"
    and "res \<noteq> Inl NoRespondersError"
  shows "for_attempt p subject payload tmo headers N w (pre @ a # post) s =
     (Some res, s\<lparr>trace := trace s @ attempt_events (request_of subject payload tmo headers s) N w pre
         @ [EvRequest (request_of subject payload tmo headers s)]\<rparr>)"
  using assms
proof (induction pre arbitrary: s)
  case Nil
  then show ?case
    by (cases res) (auto simp add: try_request_eq attempt_events_def)
next
  case (Cons b pre)
  let ?r = "request_of subject payload tmo headers s"
  let ?s1 = "s\<lparr>trace := trace s @ [EvRequest ?r]\<rparr>"
  let ?s2 = "if b < N - 1 then sleep w ?s1 else ?s1"
  from Cons.prems(1) have h0: "ack_of p (client (self s) (length (requests (trace s))) ?r) = Inl NoRespondersError"
    by (metis add.right_neutral length_greater_0_conv list.distinct(1))
  have r2: "request_of subject payload tmo headers ?s2 = ?r"
    by (simp add: request_of_def sleep_def)
  have n2: "length (requests (trace ?s2)) = Suc (length (requests (trace s)))"
    by (simp add: sleep_def requests_append)
  have c2: "self ?s2 = self s"
    by (simp add: sleep_def)
  have a1: "\<forall>i < length pre. ack_of p (client (self ?s2) (length (requests (trace ?s2)) + i)
        (request_of subject payload tmo headers ?s2)) = Inl NoRespondersError"
  proof (intro allI impI)
    fix i assume "i < length pre"
    then have "Suc i < length (b # pre)" by simp
    with Cons.prems(1) have "ack_of p (client (self s) (length (requests (trace s)) + Suc i) ?r) = Inl NoRespondersError"
      by blast
    then show "ack_of p (client (self ?s2) (length (requests (trace ?s2)) + i)
        (request_of subject payload tmo headers ?s2)) = Inl NoRespondersError"
      unfolding r2 n2 c2 by simp
  qed
  have a2: "ack_of p (client (self ?s2) (length (requests (trace ?s2)) + length pre)
        (request_of subject payload tmo headers ?s2)) = res"
    unfolding r2 n2 c2 using Cons.prems(2) by simp
  from Cons.IH [OF a1 a2 Cons.prems(3)]
  have "for_attempt p subject payload tmo headers N w (pre @ a # post) ?s2 =
     (Some res, ?s2\<lparr>trace := trace ?s2 @ attempt_events ?r N w pre @ [EvRequest ?r]\<rparr>)"
    unfolding r2 .
  then show ?case
    using h0 by (simp add: try_request_eq attempt_events_def sleep_def)
qed

lemma for_attempt_frame:
  "for_attempt p subject payload tmo headers N w as s = (res, s') \<Longrightarrow>
   self s' = self s \<and> heap s' = heap s \<and>
   (\<exists>m. requests (trace s') = requests (trace s) @ replicate m (request_of subject payload tmo headers s)
      \<and> m \<le> length as \<and> (as \<noteq> [] \<longrightarrow> 0 < m))"
proof (induction as arbitrary: s)
  case Nil
  then show ?case by auto
next
  case (Cons a as)
  let ?r = "request_of subject payload tmo headers s"
  let ?s1 = "s\<lparr>trace := trace s @ [EvRequest ?r]\<rparr>"
  let ?s2 = "if a < N - 1 then sleep w ?s1 else ?s1"
  let ?o = "ack_of p (client (self s) (length (requests (trace s))) ?r)"
  have r2: "request_of subject payload tmo headers ?s2 = ?r"
    by (simp add: request_of_def sleep_def)
  have q2: "requests (trace ?s2) = requests (trace s) @ [?r]"
    by (simp add: sleep_def requests_append)
  have f2: "self ?s2 = self s" "heap ?s2 = heap s"
    by (simp_all add: sleep_def)
  show ?case
  proof (cases "?o = Inl NoRespondersError")
    case True
    with Cons.prems have "for_attempt p subject payload tmo headers N w as ?s2 = (res, s')"
      by (simp add: try_request_eq)
    from Cons.IH [OF this] obtain m where
      "self s' = self s" "heap s' = heap s"
      "requests (trace s') = requests (trace s) @ replicate (Suc m) ?r" "m \<le> length as"
      unfolding r2 q2 f2 by (auto simp add: replicate_app_Cons_same)
    then show ?thesis
      by (intro conjI exI [of _ "Suc m"]) simp_all
  next
    case False
    with Cons.prems have "s' = ?s1"
      by (cases ?o) (auto simp add: try_request_eq)
    then show ?thesis
      by (intro conjI exI [of _ "Suc 0"]) (simp_all add: requests_append)
  qed
qed

lemma setitem_nonempty: "setitem d k v \<noteq> []"
  by (simp add: setitem_def)

lemma expectation_headers_empty:
  "expectation_headers H e1 e2 e3 e4 = [] \<longleftrightarrow> e1 = None \<and> e2 = None \<and> e3 = None \<and> e4 = None"
  by (simp add: expectation_headers_def setitem_nonempty split: option.splits)

lemma store_setitem_opt:
  "heap t = h @ [d] \<Longrightarrow>
   (case e of None \<Rightarrow> t | Some x \<Rightarrow> store_setitem (length h) k (f x) t) =
     t\<lparr>heap := h @ [case e of None \<Rightarrow> d | Some x \<Rightarrow> setitem d k (f x)]\<rparr>"
  by (cases e; cases t) (simp_all add: store_setitem_def)

lemma build_headers_eq:
  "build_headers H headers e1 e2 e3 e4 s =
     (let x = expectation_headers H e1 e2 e3 e4
      in if x \<noteq> [] then
           (Some (length (heap s)),
            s\<lparr>heap := heap s @ [case headers of None \<Rightarrow> x
                                 | Some h \<Rightarrow> dict_update x ((heap s @ [x]) ! h)]\<rparr>)
         else (headers, s\<lparr>heap := heap s @ [[]]\<rparr>))"
proof -
  define d1 where "d1 = (case e1 of None \<Rightarrow> []
      | Some x \<Rightarrow> setitem [] (EXPECTED_LAST_MSG_ID H) (str_str x))"
  define d2 where "d2 = (case e2 of None \<Rightarrow> d1
      | Some x \<Rightarrow> setitem d1 (EXPECTED_STREAM H) (str_str x))"
  define d3 where "d3 = (case e3 of None \<Rightarrow> d2
      | Some n \<Rightarrow> setitem d2 (EXPECTED_LAST_SEQ H) (str_int n))"
  define d4 where "d4 = (case e4 of None \<Rightarrow> d3
      | Some n \<Rightarrow> setitem d3 (EXPECTED_LAST_SUBJECT_SEQUENCE H) (str_int n))"
  have x: "expectation_headers H e1 e2 e3 e4 = d4"
    unfolding expectation_headers_def Let_def d4_def d3_def d2_def d1_def ..
  have 1: "(case e1 of None \<Rightarrow> s\<lparr>heap := heap s @ [[]]\<rparr>
      | Some x \<Rightarrow> store_setitem (length (heap s)) (EXPECTED_LAST_MSG_ID H) (str_str x)
          (s\<lparr>heap := heap s @ [[]]\<rparr>)) = s\<lparr>heap := heap s @ [d1]\<rparr>"
    by (simp add: store_setitem_opt [where h = "heap s" and d = "[]"] d1_def)
  have 2: "(case e2 of None \<Rightarrow> s\<lparr>heap := heap s @ [d1]\<rparr>
      | Some x \<Rightarrow> store_setitem (length (heap s)) (EXPECTED_STREAM H) (str_str x)
          (s\<lparr>heap := heap s @ [d1]\<rparr>)) = s\<lparr>heap := heap s @ [d2]\<rparr>"
    by (simp add: store_setitem_opt [where h = "heap s" and d = d1] d2_def)
  have 3: "(case e3 of None \<Rightarrow> s\<lparr>heap := heap s @ [d2]\<rparr>
      | Some x \<Rightarrow> store_setitem (length (heap s)) (EXPECTED_LAST_SEQ H) (str_int x)
          (s\<lparr>heap := heap s @ [d2]\<rparr>)) = s\<lparr>heap := heap s @ [d3]\<rparr>"
    by (simp add: store_setitem_opt [where h = "heap s" and d = d2] d3_def)
  have 4: "(case e4 of None \<Rightarrow> s\<lparr>heap := heap s @ [d3]\<rparr>
      | Some x \<Rightarrow> store_setitem (length (heap s)) (EXPECTED_LAST_SUBJECT_SEQUENCE H) (str_int x)
          (s\<lparr>heap := heap s @ [d3]\<rparr>)) = s\<lparr>heap := heap s @ [d4]\<rparr>"
    by (simp add: store_setitem_opt [where h = "heap s" and d = d3] d4_def)
  have b: "build_headers H headers e1 e2 e3 e4 s =
     (if length (heap (s\<lparr>heap := heap s @ [d4]\<rparr>) ! length (heap s)) > 0
      then (Some (length (heap s)),
            (case headers of None \<Rightarrow> s\<lparr>heap := heap s @ [d4]\<rparr>
             | Some h \<Rightarrow> store_update (length (heap s)) h (s\<lparr>heap := heap s @ [d4]\<rparr>)))
      else (headers, s\<lparr>heap := heap s @ [d4]\<rparr>))"
    unfolding build_headers_def alloc_def Let_def prod.case 1 2 3 4 ..
  have u: "\<And>h. store_update (length (heap s)) h (s\<lparr>heap := heap s @ [d4]\<rparr>) =
      s\<lparr>heap := heap s @ [dict_update d4 ((heap s @ [d4]) ! h)]\<rparr>"
    by (simp add: store_update_def)
  show ?thesis
    unfolding b x Let_def u
    by (cases headers) auto
qed

lemma build_headers_frame:
  "build_headers H headers e1 e2 e3 e4 s = (h', s1) \<Longrightarrow>
   self s1 = self s \<and> trace s1 = trace s \<and> take (length (heap s)) (heap s1) = heap s"
  by (auto simp add: build_headers_eq Let_def split: if_splits)

lemma attempt_events_sleeping:
  "\<forall>a \<in> set as. a < N - 1 \<Longrightarrow>
   attempt_events r N w as = concat (replicate (length as) [EvRequest r, EvSleep w])"
  by (induction as) (simp_all add: attempt_events_def)

lemma attempt_events_upto_prefix:
  "int k < N \<Longrightarrow>
   attempt_events r N w [0..int k - 1] = concat (replicate k [EvRequest r, EvSleep w])"
  using attempt_events_sleeping [of "[0..int k - 1]" N r w] by simp

lemma attempt_events_range:
  assumes "1 \<le> N"
  shows "attempt_events r N w [0..N - 1] =
     concat (replicate (nat N - 1) [EvRequest r, EvSleep w]) @ [EvRequest r]"
proof -
  have "[0..N - 1] = [0..N - 1 - 1] @ [N - 1]"
    using assms by (intro upto_rec2) simp
  moreover have "attempt_events r N w [0..N - 1 - 1] =
      concat (replicate (nat N - 1) [EvRequest r, EvSleep w])"
    using attempt_events_upto_prefix [of "nat N - 1" N r w] assms
    by (simp add: nat_diff_distrib' algebra_simps)
  moreover have "attempt_events r N w [N - 1] = [EvRequest r]"
    by (simp add: attempt_events_def)
  ultimately show ?thesis
    by (simp add: attempt_events_append)
qed

lemma publish_unfold:
  assumes "build_headers H headers e1 e2 e3 e4 s = (h', s1)"
  shows "publish H p s subject payload msg_id tmo headers e1 e2 e3 e4 N w =
     (case for_attempt p subject payload (case tmo of None \<Rightarrow> timeout (self s) | Some t \<Rightarrow> t)
             h' N w [0..N - 1] s1 of
        (Some r, s'') \<Rightarrow> (r, s'')
      | (None, s'') \<Rightarrow> (Inl NoStreamResponseError, s''))"
    and "request_of subject payload (case tmo of None \<Rightarrow> timeout (self s) | Some t \<Rightarrow> t) h' s1 =
      outgoing_request H s subject payload tmo headers e1 e2 e3 e4"
  using assms by (simp_all add: publish_def outgoing_request_def)

lemma publish_exhaust:
  assumes N: "1 \<le> N"
    and fail: "\<forall>i < nat N. ack_of p (client (self s) (length (requests (trace s)) + i)
        (outgoing_request H s subject payload tmo headers e1 e2 e3 e4)) = Inl NoRespondersError"
  shows "fst (publish H p s subject payload msg_id tmo headers e1 e2 e3 e4 N w) =
       Inl NoStreamResponseError"
    and "trace (snd (publish H p s subject payload msg_id tmo headers e1 e2 e3 e4 N w)) =
       trace s @ concat (replicate (nat N - 1)
           [EvRequest (outgoing_request H s subject payload tmo headers e1 e2 e3 e4), EvSleep w])
         @ [EvRequest (outgoing_request H s subject payload tmo headers e1 e2 e3 e4)]"
proof -
  obtain h' s1 where b: "build_headers H headers e1 e2 e3 e4 s = (h', s1)"
    by (cases "build_headers H headers e1 e2 e3 e4 s")
  note u = publish_unfold [OF b]
  from build_headers_frame [OF b] have f: "self s1 = self s" "trace s1 = trace s"
    by simp_all
  let ?t = "case tmo of None \<Rightarrow> timeout (self s) | Some t \<Rightarrow> t"
  let ?r = "outgoing_request H s subject payload tmo headers e1 e2 e3 e4"
  have len: "length [0..N - 1] = nat N"
    using N by simp
  have "for_attempt p subject payload ?t h' N w [0..N - 1] s1 =
      (None, s1\<lparr>trace := trace s1 @ attempt_events ?r N w [0..N - 1]\<rparr>)"
    using fail for_attempt_all_caught [of "[0..N - 1]" p s1 subject payload ?t h' N w]
    unfolding u(2) f len by blast
  then have "publish H p s subject payload msg_id tmo headers e1 e2 e3 e4 N w =
      (Inl NoStreamResponseError, s1\<lparr>trace := trace s @ attempt_events ?r N w [0..N - 1]\<rparr>)"
    by (simp add: u(1) f)
  then show "fst (publish H p s subject payload msg_id tmo headers e1 e2 e3 e4 N w) =
       Inl NoStreamResponseError"
    and "trace (snd (publish H p s subject payload msg_id tmo headers e1 e2 e3 e4 N w)) =
       trace s @ concat (replicate (nat N - 1) [EvRequest ?r, EvSleep w]) @ [EvRequest ?r]"
    by (simp_all add: attempt_events_range [OF N])
qed

lemma publish_stop:
  assumes k: "int k < N"
    and fail: "\<forall>i < k. ack_of p (client (self s) (length (requests (trace s)) + i)
        (outgoing_request H s subject payload tmo headers e1 e2 e3 e4)) = Inl NoRespondersError"
    and res: "ack_of p (client (self s) (length (requests (trace s)) + k)
        (outgoing_request H s subject payload tmo headers e1 e2 e3 e4)) = res"
    and ne: "res \<noteq> Inl NoRespondersError"
  shows "fst (publish H p s subject payload msg_id tmo headers e1 e2 e3 e4 N w) = res"
    and "trace (snd (publish H p s subject payload msg_id tmo headers e1 e2 e3 e4 N w)) =
       trace s @ concat (replicate k
           [EvRequest (outgoing_request H s subject payload tmo headers e1 e2 e3 e4), EvSleep w])
         @ [EvRequest (outgoing_request H s subject payload tmo headers e1 e2 e3 e4)]"
proof -
  obtain h' s1 where b: "build_headers H headers e1 e2 e3 e4 s = (h', s1)"
    by (cases "build_headers H headers e1 e2 e3 e4 s")
  note u = publish_unfold [OF b]
  from build_headers_frame [OF b] have f: "self s1 = self s" "trace s1 = trace s"
    by simp_all
  let ?t = "case tmo of None \<Rightarrow> timeout (self s) | Some t \<Rightarrow> t"
  let ?r = "outgoing_request H s subject payload tmo headers e1 e2 e3 e4"
  have split: "[0..N - 1] = [0..int k - 1] @ int k # [int k + 1..N - 1]"
    using k by (intro upto_split3) simp_all
  have len: "length [0..int k - 1] = k"
    by simp
  have "for_attempt p subject payload ?t h' N w ([0..int k - 1] @ int k # [int k + 1..N - 1]) s1 =
      (Some res, s1\<lparr>trace := trace s1 @ attempt_events ?r N w [0..int k - 1] @ [EvRequest ?r]\<rparr>)"
    using fail res ne
      for_attempt_stop [of "[0..int k - 1]" p s1 subject payload ?t h' res N w "int k"
        "[int k + 1..N - 1]"]
    unfolding u(2) f len by blast
  then have "publish H p s subject payload msg_id tmo headers e1 e2 e3 e4 N w =
      (res, s1\<lparr>trace := trace s @ attempt_events ?r N w [0..int k - 1] @ [EvRequest ?r]\<rparr>)"
    by (simp add: u(1) f split [symmetric])
  then show "fst (publish H p s subject payload msg_id tmo headers e1 e2 e3 e4 N w) = res"
    and "trace (snd (publish H p s subject payload msg_id tmo headers e1 e2 e3 e4 N w)) =
       trace s @ concat (replicate k [EvRequest ?r, EvSleep w]) @ [EvRequest ?r]"
    by (simp_all add: attempt_events_upto_prefix [OF k])
qed

lemma requests_replicate:
  "requests (concat (replicate k [EvRequest r, EvSleep w])) = replicate k r"
  by (induction k) simp_all

lemma sleeps_append: "sleeps (xs @ ys) = sleeps xs @ sleeps ys"
  by (induction xs rule: sleeps.induct) simp_all

lemma sleeps_replicate:
  "sleeps (concat (replicate k [EvRequest r, EvSleep w])) = replicate k w"
  by (induction k) simp_all

lemma example_request_plain:
  "outgoing_request example_header (example_state c []) subject payload None None None None
     None None = Request subject payload 1 None"
  by (simp add: outgoing_request_def build_headers_eq expectation_headers_def request_of_def
      example_state_def)

lemma example_state_simps:
  "self (example_state c h) = \<lparr>client = c, timeout = 1\<rparr>"
  "heap (example_state c h) = h"
  "trace (example_state c h) = []"
  by (simp_all add: example_state_def)

lemma map_of_setitem: "map_of (setitem d k v) = (map_of d)(k \<mapsto> v)"
  by (simp add: setitem_def update_conv')

lemma map_of_dict_update: "map_of (dict_update x y) = map_of x ++ map_of (rev y)"
proof (induction y arbitrary: x)
  case Nil
  then show ?case by (simp add: dict_update_def)
next
  case (Cons p y)
  obtain k v where p: "p = (k, v)" by (cases p)
  have "dict_update x (p # y) = dict_update (setitem x k v) y"
    by (simp add: dict_update_def p)
  then have "map_of (dict_update x (p # y)) = (map_of x)(k \<mapsto> v) ++ map_of (rev y)"
    by (simp only: Cons.IH map_of_setitem)
  also have "\<dots> = map_of x ++ map_of (rev (p # y))"
    by (rule ext) (simp add: p map_add_def split: option.splits)
  finally show ?case .
qed

lemma map_of_rev_distinct:
  assumes "distinct (map fst xs)"
  shows "map_of (rev xs) = map_of xs"
proof -
  have "distinct (map fst (rev xs))"
    using assms by (simp add: rev_map [symmetric])
  then show ?thesis
    using assms by (simp add: map_of_inject_set)
qed

lemma map_of_dict_update_distinct:
  "distinct (map fst y) \<Longrightarrow> map_of (dict_update x y) = map_of x ++ map_of y"
  by (simp add: map_of_dict_update map_of_rev_distinct)

lemma dict_update_Nil: "dict_update x [] = x"
  by (simp add: dict_update_def)

lemma publish_requests:
  "\<exists>m. requests (trace (snd (publish H p s subject payload msg_id tmo headers e1 e2 e3 e4 N w))) =
     requests (trace s) @
       replicate m (outgoing_request H s subject payload tmo headers e1 e2 e3 e4) \<and>
     (1 \<le> N \<longrightarrow> 0 < m)"
proof -
  obtain h' s1 where b: "build_headers H headers e1 e2 e3 e4 s = (h', s1)"
    by (cases "build_headers H headers e1 e2 e3 e4 s")
  note u = publish_unfold [OF b]
  from build_headers_frame [OF b] have f: "trace s1 = trace s"
    by simp
  let ?t = "case tmo of None \<Rightarrow> timeout (self s) | Some t \<Rightarrow> t"
  obtain res s2 where l: "for_attempt p subject payload ?t h' N w [0..N - 1] s1 = (res, s2)"
    by (cases "for_attempt p subject payload ?t h' N w [0..N - 1] s1")
  from for_attempt_frame [OF l] obtain m where
    m: "requests (trace s2) = requests (trace s) @
          replicate m (outgoing_request H s subject payload tmo headers e1 e2 e3 e4)"
      "[0..N - 1] \<noteq> [] \<longrightarrow> 0 < m"
    unfolding u(2) f by blast
  have "snd (publish H p s subject payload msg_id tmo headers e1 e2 e3 e4 N w) = s2"
    by (cases res) (simp_all add: u(1) l)
  moreover have "1 \<le> N \<Longrightarrow> [0..N - 1] \<noteq> []"
    by (simp add: upto.simps)
  ultimately show ?thesis
    using m by auto
qed

lemma publish_frame:
  "self (snd (publish H p s subject payload msg_id tmo headers e1 e2 e3 e4 N w)) = self s"
  "take (length (heap s))
     (heap (snd (publish H p s subject payload msg_id tmo headers e1 e2 e3 e4 N w))) = heap s"
proof -
  obtain h' s1 where b: "build_headers H headers e1 e2 e3 e4 s = (h', s1)"
    by (cases "build_headers H headers e1 e2 e3 e4 s")
  note u = publish_unfold [OF b]
  note f = build_headers_frame [OF b]
  let ?t = "case tmo of None \<Rightarrow> timeout (self s) | Some t \<Rightarrow> t"
  obtain res s2 where l: "for_attempt p subject payload ?t h' N w [0..N - 1] s1 = (res, s2)"
    by (cases "for_attempt p subject payload ?t h' N w [0..N - 1] s1")
  note g = for_attempt_frame [OF l]
  have e: "snd (publish H p s subject payload msg_id tmo headers e1 e2 e3 e4 N w) = s2"
    by (cases res) (simp_all add: u(1) l)
  show "self (snd (publish H p s subject payload msg_id tmo headers e1 e2 e3 e4 N w)) = self s"
    unfolding e using f g by simp
  show "take (length (heap s))
     (heap (snd (publish H p s subject payload msg_id tmo headers e1 e2 e3 e4 N w))) = heap s"
    unfolding e using f g by simp
qed

lemma str_int_5: "str_int 5 = ''5''"
  by (simp add: str_int_def str_nat.simps)

lemma valid_headers_example: "valid_headers (example_state c [example_dict]) (Some 0)"
  by (simp add: valid_headers_def example_state_simps example_dict_def)

lemma outgoing_request_eq:
  assumes "valid_headers s headers"
  shows "outgoing_request H s subject payload tmo headers e1 e2 e3 e4 =
     Request subject payload (case tmo of None \<Rightarrow> timeout (self s) | Some t \<Rightarrow> t)
       (if expectation_headers H e1 e2 e3 e4 = [] then caller_headers s headers
        else Some (dict_update (expectation_headers H e1 e2 e3 e4)
                     (items (caller_headers s headers))))"
proof (cases headers)
  case None
  then show ?thesis
    by (simp add: outgoing_request_def build_headers_eq request_of_def Let_def
        caller_headers_def items_def dict_update_Nil)
next
  case (Some a)
  with assms have "a < length (heap s)"
    by (simp add: valid_headers_def)
  with Some show ?thesis
    by (simp add: outgoing_request_def build_headers_eq request_of_def Let_def
        caller_headers_def items_def nth_append)
qed

lemma valid_headers_items:
  "valid_headers s headers \<Longrightarrow> distinct (map fst (items (caller_headers s headers)))"
  by (cases headers) (simp_all add: valid_headers_def items_def caller_headers_def)

lemma lookup_items: "lookup hs k = map_of (items hs) k"
  by (cases hs) (simp_all add: lookup_def items_def)

lemma map_of_setitem_opt:
  "map_of (case e of None \<Rightarrow> d | Some x \<Rightarrow> setitem d k (f x)) k' =
     (if k' = k \<and> e \<noteq> None then map_option f e else map_of d k')"
  by (cases e) (simp_all add: map_of_setitem)

lemma expectation_headers_lookup:
  assumes "distinct [EXPECTED_LAST_MSG_ID H, EXPECTED_STREAM H, EXPECTED_LAST_SEQ H,
      EXPECTED_LAST_SUBJECT_SEQUENCE H]"
  shows "map_of (expectation_headers H e1 e2 e3 e4) (EXPECTED_LAST_MSG_ID H) =
           map_option str_str e1"
    and "map_of (expectation_headers H e1 e2 e3 e4) (EXPECTED_STREAM H) =
           map_option str_str e2"
    and "map_of (expectation_headers H e1 e2 e3 e4) (EXPECTED_LAST_SEQ H) =
           map_option str_int e3"
    and "map_of (expectation_headers H e1 e2 e3 e4) (EXPECTED_LAST_SUBJECT_SEQUENCE H) =
           map_option str_int e4"
proof -
  define d1 where "d1 = (case e1 of None \<Rightarrow> []
      | Some x \<Rightarrow> setitem [] (EXPECTED_LAST_MSG_ID H) (str_str x))"
  define d2 where "d2 = (case e2 of None \<Rightarrow> d1
      | Some x \<Rightarrow> setitem d1 (EXPECTED_STREAM H) (str_str x))"
  define d3 where "d3 = (case e3 of None \<Rightarrow> d2
      | Some n \<Rightarrow> setitem d2 (EXPECTED_LAST_SEQ H) (str_int n))"
  define d4 where "d4 = (case e4 of None \<Rightarrow> d3
      | Some n \<Rightarrow> setitem d3 (EXPECTED_LAST_SUBJECT_SEQUENCE H) (str_int n))"
  have x: "expectation_headers H e1 e2 e3 e4 = d4"
    unfolding expectation_headers_def Let_def d4_def d3_def d2_def d1_def ..
  have 1: "map_of d1 k = (if k = EXPECTED_LAST_MSG_ID H \<and> e1 \<noteq> None
      then map_option str_str e1 else None)" for k
    unfolding d1_def map_of_setitem_opt by simp
  have 2: "map_of d2 k = (if k = EXPECTED_STREAM H \<and> e2 \<noteq> None
      then map_option str_str e2 else map_of d1 k)" for k
    unfolding d2_def by (rule map_of_setitem_opt)
  have 3: "map_of d3 k = (if k = EXPECTED_LAST_SEQ H \<and> e3 \<noteq> None
      then map_option str_int e3 else map_of d2 k)" for k
    unfolding d3_def by (rule map_of_setitem_opt)
  have 4: "map_of d4 k = (if k = EXPECTED_LAST_SUBJECT_SEQUENCE H \<and> e4 \<noteq> None
      then map_option str_int e4 else map_of d3 k)" for k
    unfolding d4_def by (rule map_of_setitem_opt)
  from assms have ne:
    "EXPECTED_LAST_MSG_ID H \<noteq> EXPECTED_STREAM H"
    "EXPECTED_LAST_MSG_ID H \<noteq> EXPECTED_LAST_SEQ H"
    "EXPECTED_LAST_MSG_ID H \<noteq> EXPECTED_LAST_SUBJECT_SEQUENCE H"
    "EXPECTED_STREAM H \<noteq> EXPECTED_LAST_SEQ H"
    "EXPECTED_STREAM H \<noteq> EXPECTED_LAST_SUBJECT_SEQUENCE H"
    "EXPECTED_LAST_SEQ H \<noteq> EXPECTED_LAST_SUBJECT_SEQUENCE H"
    by simp_all
  show "map_of (expectation_headers H e1 e2 e3 e4) (EXPECTED_LAST_MSG_ID H) =
      map_option str_str e1"
    unfolding x using ne by (cases e1) (simp_all add: 1 2 3 4)
  show "map_of (expectation_headers H e1 e2 e3 e4) (EXPECTED_STREAM H) =
      map_option str_str e2"
    unfolding x using ne by (cases e2) (simp_all add: 1 2 3 4)
  show "map_of (expectation_headers H e1 e2 e3 e4) (EXPECTED_LAST_SEQ H) =
      map_option str_int e3"
    unfolding x using ne by (cases e3) (simp_all add: 1 2 3 4)
  show "map_of (expectation_headers H e1 e2 e3 e4) (EXPECTED_LAST_SUBJECT_SEQUENCE H) =
      map_option str_int e4"
    unfolding x using ne by (cases e4) (simp_all add: 1 2 3 4)
qed

lemma outgoing_lookup_absent:
  assumes "valid_headers s headers"
    and "lookup (caller_headers s headers) k = None"
  shows "lookup (req_headers (outgoing_request H s subject payload tmo headers e1 e2 e3 e4)) k =
     map_of (expectation_headers H e1 e2 e3 e4) k"
proof (cases "expectation_headers H e1 e2 e3 e4 = []")
  case True
  then show ?thesis
    using assms(2) by (simp add: outgoing_request_eq [OF assms(1)])
next
  case False
  have "map_of (items (caller_headers s headers)) k = None"
    using assms(2) by (simp add: lookup_items)
  then show ?thesis
    using False assms(1)
    by (simp add: outgoing_request_eq [OF assms(1)] lookup_def map_of_dict_update_distinct
        valid_headers_items map_add_def)
qed

lemma example_request_merged:
  "outgoing_request example_header (example_state c [example_dict]) subject payload None
     (Some 0) None (Some ''ORDERS'') (Some 5) None =
   Request subject payload 1
     (Some [(''Nats-Expected-Stream'', ''ORDERS''), (''Nats-Expected-Last-Sequence'', ''7''),
        (''Trace-Id'', ''abc'')])"
  unfolding outgoing_request_eq [OF valid_headers_example]
  by (simp add: expectation_headers_def example_header_def setitem_def dict_update_def
      caller_headers_def items_def example_state_simps example_dict_def str_int_5 str_str_def)

lemma example_header_distinct:
  "distinct [EXPECTED_LAST_MSG_ID example_header, EXPECTED_STREAM example_header,
      EXPECTED_LAST_SEQ example_header, EXPECTED_LAST_SUBJECT_SEQUENCE example_header]"
  by (simp add: example_header_def)

lemma outgoing_lookup_present:
  assumes "valid_headers s headers"
    and "lookup (caller_headers s headers) k = Some v"
  shows "lookup (req_headers (outgoing_request H s subject payload tmo headers e1 e2 e3 e4)) k =
     Some v"
proof (cases "expectation_headers H e1 e2 e3 e4 = []")
  case True
  then show ?thesis
    using assms(2) by (simp add: outgoing_request_eq [OF assms(1)])
next
  case False
  have "map_of (items (caller_headers s headers)) k = Some v"
    using assms(2) by (simp add: lookup_items)
  then show ?thesis
    using False assms(1)
    by (simp add: outgoing_request_eq [OF assms(1)] lookup_def map_of_dict_update_distinct
        valid_headers_items map_add_def)
qed

lemma outgoing_lookup:
  assumes "valid_headers s headers"
  shows "lookup (req_headers (outgoing_request H s subject payload tmo headers e1 e2 e3 e4)) k =
     (case lookup (caller_headers s headers) k of
        None \<Rightarrow> map_of (expectation_headers H e1 e2 e3 e4) k
      | Some v \<Rightarrow> Some v)"
proof (cases "lookup (caller_headers s headers) k")
  case None
  then show ?thesis
    by (simp add: outgoing_lookup_absent [OF assms])
next
  case (Some v)
  then show ?thesis
    by (simp add: outgoing_lookup_present [OF assms])
qed

lemma example_lookups:
  "lookup (caller_headers (example_state c [example_dict]) (Some 0))
     (EXPECTED_LAST_SEQ example_header) = Some ''7''"
  "lookup (caller_headers (example_state c [example_dict]) (Some 0))
     (EXPECTED_STREAM example_header) = None"
  "lookup (caller_headers (example_state c [example_dict]) (Some 0))
     (EXPECTED_LAST_MSG_ID example_header) = None"
  "lookup (caller_headers (example_state c []) None) k = None"
  by (simp_all add: lookup_def caller_headers_def example_state_simps example_dict_def
      example_header_def)

subsection \<open>The retry loop\<close>

text \<open>
  C1. For every \<open>retry_attempts = N \<ge> 1\<close>, when every transport request fails with no
  responders, \<open>publish\<close> issues exactly \<open>N\<close> requests, sleeps \<open>retry_wait\<close> after each
  of the first \<open>N - 1\<close> and not after the last, and raises \<open>NoStreamResponseError\<close>.
\<close>

theorem publish_no_responders_exhausts:
  assumes "1 \<le> retry_attempts"
    and "\<forall>n r. client (self s) n r = Inl NoRespondersError"
  shows "fst (publish H parse_json_response s subject payload msg_id tmo headers
             expected_last_msg_id expected_stream expected_last_sequence
             expected_last_subject_sequence retry_attempts retry_wait) =
           Inl NoStreamResponseError \<and>
         trace (snd (publish H parse_json_response s subject payload msg_id tmo headers
             expected_last_msg_id expected_stream expected_last_sequence
             expected_last_subject_sequence retry_attempts retry_wait)) =
           trace s @
           concat (replicate (nat retry_attempts - 1)
             [EvRequest (outgoing_request H s subject payload tmo headers expected_last_msg_id
                expected_stream expected_last_sequence expected_last_subject_sequence),
              EvSleep retry_wait]) @
           [EvRequest (outgoing_request H s subject payload tmo headers expected_last_msg_id
              expected_stream expected_last_sequence expected_last_subject_sequence)] \<and>
         length (requests (trace (snd (publish H parse_json_response s subject payload msg_id
             tmo headers expected_last_msg_id expected_stream expected_last_sequence
             expected_last_subject_sequence retry_attempts retry_wait)))) =
           length (requests (trace s)) + nat retry_attempts \<and>
         sleeps (trace (snd (publish H parse_json_response s subject payload msg_id tmo headers
             expected_last_msg_id expected_stream expected_last_sequence
             expected_last_subject_sequence retry_attempts retry_wait))) =
           sleeps (trace s) @ replicate (nat retry_attempts - 1) retry_wait"
proof -
  let ?r = "outgoing_request H s subject payload tmo headers expected_last_msg_id
      expected_stream expected_last_sequence expected_last_subject_sequence"
  have fail: "\<forall>i < nat retry_attempts.
      ack_of parse_json_response (client (self s) (length (requests (trace s)) + i) ?r) =
        Inl NoRespondersError"
    using assms(2) by (simp add: ack_of_def)
  note e = publish_exhaust [OF assms(1) fail, of msg_id retry_wait]
  have n: "Suc (nat retry_attempts - Suc 0) = nat retry_attempts"
    using assms(1) by simp
  show ?thesis
    unfolding e by (simp add: requests_append requests_replicate sleeps_append sleeps_replicate n)
qed

text \<open>With three attempts: three requests, two sleeps between them.\<close>

theorem publish_no_responders_exhausts_witness:
  "(1::int) \<le> 3 \<and>
   (\<forall>n r. client (self (example_state (\<lambda>n r. Inl NoRespondersError) [])) n r =
      Inl NoRespondersError) \<and>
   fst (publish example_header (\<lambda>b. Inl (OtherError ''json'')) 
      (example_state (\<lambda>n r. Inl NoRespondersError) [])
      ''ORDERS.new'' ''hello'' None None None None None None None 3 (1/4)) =
     Inl NoStreamResponseError \<and>
   trace (snd (publish example_header (\<lambda>b. Inl (OtherError ''json''))
      (example_state (\<lambda>n r. Inl NoRespondersError) [])
      ''ORDERS.new'' ''hello'' None None None None None None None 3 (1/4))) =
     [EvRequest (Request ''ORDERS.new'' ''hello'' 1 None), EvSleep (1/4),
      EvRequest (Request ''ORDERS.new'' ''hello'' 1 None), EvSleep (1/4),
      EvRequest (Request ''ORDERS.new'' ''hello'' 1 None)]"
proof -
  have h1: "(1::int) \<le> 3" by simp
  have h2: "\<forall>n r. client (self (example_state (\<lambda>n r. Inl NoRespondersError) [])) n r =
      Inl NoRespondersError"
    by (simp add: example_state_def)
  have t: "trace (example_state (\<lambda>n r. Inl NoRespondersError) []) = []"
    by (simp add: example_state_def)
  have n: "nat 3 - 1 = Suc (Suc 0)" by simp
  show ?thesis
    using h1 h2
      publish_no_responders_exhausts [OF h1 h2, of example_header "\<lambda>b. Inl (OtherError ''json'')"
        "''ORDERS.new''" "''hello''" None None None None None None None "1/4"]
    unfolding example_request_plain t n by simp
qed

text \<open>
  C2. A reply that decodes to an ack without stream makes \<open>publish\<close> raise
  \<open>InvalidAckError\<close> on that attempt, whatever number of attempts remains: after \<open>k\<close>
  attempts answered by no responders, the attempt \<open>k + 1\<close> is the last request.
\<close>

theorem publish_invalid_ack_immediate:
  assumes "int k < retry_attempts"
    and "\<forall>i < k. client (self s) (length (requests (trace s)) + i)
          (outgoing_request H s subject payload tmo headers expected_last_msg_id
             expected_stream expected_last_sequence expected_last_subject_sequence) =
          Inl NoRespondersError"
    and "client (self s) (length (requests (trace s)) + k)
          (outgoing_request H s subject payload tmo headers expected_last_msg_id
             expected_stream expected_last_sequence expected_last_subject_sequence) = Inr msg"
    and "parse_json_response (data msg) = Inr pub_ack"
    and "stream pub_ack = None"
  shows "fst (publish H parse_json_response s subject payload msg_id tmo headers
             expected_last_msg_id expected_stream expected_last_sequence
             expected_last_subject_sequence retry_attempts retry_wait) = Inl InvalidAckError \<and>
         trace (snd (publish H parse_json_response s subject payload msg_id tmo headers
             expected_last_msg_id expected_stream expected_last_sequence
             expected_last_subject_sequence retry_attempts retry_wait)) =
           trace s @
           concat (replicate k
             [EvRequest (outgoing_request H s subject payload tmo headers expected_last_msg_id
                expected_stream expected_last_sequence expected_last_subject_sequence),
              EvSleep retry_wait]) @
           [EvRequest (outgoing_request H s subject payload tmo headers expected_last_msg_id
              expected_stream expected_last_sequence expected_last_subject_sequence)] \<and>
         length (requests (trace (snd (publish H parse_json_response s subject payload msg_id
             tmo headers expected_last_msg_id expected_stream expected_last_sequence
             expected_last_subject_sequence retry_attempts retry_wait)))) =
           length (requests (trace s)) + k + 1"
proof -
  let ?r = "outgoing_request H s subject payload tmo headers expected_last_msg_id
      expected_stream expected_last_sequence expected_last_subject_sequence"
  have fail: "\<forall>i < k.
      ack_of parse_json_response (client (self s) (length (requests (trace s)) + i) ?r) =
        Inl NoRespondersError"
    using assms(2) by (simp add: ack_of_def)
  have res: "ack_of parse_json_response (client (self s) (length (requests (trace s)) + k) ?r) =
      Inl InvalidAckError"
    using assms(3,4,5) by (simp add: ack_of_def)
  have ne: "(Inl InvalidAckError :: error + PubAck) \<noteq> Inl NoRespondersError"
    by simp
  note e = publish_stop [OF assms(1) fail res ne, of msg_id retry_wait]
  show ?thesis
    unfolding e by (simp add: requests_append requests_replicate)
qed

text \<open>One retry, then an ack without stream, with five attempts allowed.\<close>

theorem publish_invalid_ack_immediate_witness:
  "int 1 < 5 \<and>
   client (self (example_state (flaky 1 (Inr \<lparr>data = ''{}''\<rparr>)) []))
       (length (requests (trace (example_state (flaky 1 (Inr \<lparr>data = ''{}''\<rparr>)) []))) + 0)
       (outgoing_request example_header (example_state (flaky 1 (Inr \<lparr>data = ''{}''\<rparr>)) [])
          ''ORDERS.new'' ''hello'' None None None None None None) = Inl NoRespondersError \<and>
   client (self (example_state (flaky 1 (Inr \<lparr>data = ''{}''\<rparr>)) []))
       (length (requests (trace (example_state (flaky 1 (Inr \<lparr>data = ''{}''\<rparr>)) []))) + 1)
       (outgoing_request example_header (example_state (flaky 1 (Inr \<lparr>data = ''{}''\<rparr>)) [])
          ''ORDERS.new'' ''hello'' None None None None None None) = Inr \<lparr>data = ''{}''\<rparr> \<and>
   (\<lambda>b. Inr (example_ack None) :: error + PubAck) (data \<lparr>data = ''{}''\<rparr>) =
     Inr (example_ack None) \<and>
   stream (example_ack None) = None \<and>
   fst (publish example_header (\<lambda>b. Inr (example_ack None))
      (example_state (flaky 1 (Inr \<lparr>data = ''{}''\<rparr>)) [])
      ''ORDERS.new'' ''hello'' None None None None None None None 5 (1/4)) =
     Inl InvalidAckError \<and>
   trace (snd (publish example_header (\<lambda>b. Inr (example_ack None))
      (example_state (flaky 1 (Inr \<lparr>data = ''{}''\<rparr>)) [])
      ''ORDERS.new'' ''hello'' None None None None None None None 5 (1/4))) =
     [EvRequest (Request ''ORDERS.new'' ''hello'' 1 None), EvSleep (1/4),
      EvRequest (Request ''ORDERS.new'' ''hello'' 1 None)]"
proof -
  let ?s = "example_state (flaky 1 (Inr \<lparr>data = ''{}''\<rparr>)) []"
  let ?r = "outgoing_request example_header ?s ''ORDERS.new'' ''hello'' None None None None
      None None"
  have h1: "int 1 < 5" by simp
  have h2: "\<forall>i < 1. client (self ?s) (length (requests (trace ?s)) + i) ?r = Inl NoRespondersError"
    by (simp add: example_state_simps flaky_def)
  have h3: "client (self ?s) (length (requests (trace ?s)) + 1) ?r = Inr \<lparr>data = ''{}''\<rparr>"
    by (simp add: example_state_simps flaky_def)
  have h4: "(\<lambda>b. Inr (example_ack None) :: error + PubAck) (data \<lparr>data = ''{}''\<rparr>) =
      Inr (example_ack None)"
    by simp
  have h5: "stream (example_ack None) = None"
    by (simp add: example_ack_def)
  show ?thesis
    using h1 h2 h3 h4 h5
      publish_invalid_ack_immediate [OF h1 h2 h3 h4 h5, of None "1/4"]
    unfolding example_request_plain example_state_simps by (simp add: flaky_def)
qed



text \<open>
  C4. When the first \<open>k < N\<close> attempts are answered by no responders and the next
  reply decodes to an ack with a stream, \<open>publish\<close> makes exactly \<open>k + 1\<close> requests and
  returns that ack, all fields as decoded.
\<close>

theorem publish_returns_ack_after_retries:
  assumes "int k < retry_attempts"
    and "\<forall>i < k. client (self s) (length (requests (trace s)) + i)
          (outgoing_request H s subject payload tmo headers expected_last_msg_id
             expected_stream expected_last_sequence expected_last_subject_sequence) =
          Inl NoRespondersError"
    and "client (self s) (length (requests (trace s)) + k)
          (outgoing_request H s subject payload tmo headers expected_last_msg_id
             expected_stream expected_last_sequence expected_last_subject_sequence) = Inr msg"
    and "parse_json_response (data msg) = Inr pub_ack"
    and "stream pub_ack \<noteq> None"
  shows "fst (publish H parse_json_response s subject payload msg_id tmo headers
             expected_last_msg_id expected_stream expected_last_sequence
             expected_last_subject_sequence retry_attempts retry_wait) = Inr pub_ack \<and>
         trace (snd (publish H parse_json_response s subject payload msg_id tmo headers
             expected_last_msg_id expected_stream expected_last_sequence
             expected_last_subject_sequence retry_attempts retry_wait)) =
           trace s @
           concat (replicate k
             [EvRequest (outgoing_request H s subject payload tmo headers expected_last_msg_id
             expected_stream expected_last_sequence expected_last_subject_sequence),
              EvSleep retry_wait]) @
           [EvRequest (outgoing_request H s subject payload tmo headers expected_last_msg_id
             expected_stream expected_last_sequence expected_last_subject_sequence)] \<and>
         length (requests (trace (snd (publish H parse_json_response s subject payload msg_id tmo headers
             expected_last_msg_id expected_stream expected_last_sequence
             expected_last_subject_sequence retry_attempts retry_wait)))) =
           length (requests (trace s)) + k + 1"
proof -
  let ?r = "outgoing_request H s subject payload tmo headers expected_last_msg_id
      expected_stream expected_last_sequence expected_last_subject_sequence"
  have fail: "\<forall>i < k.
      ack_of parse_json_response (client (self s) (length (requests (trace s)) + i) ?r) =
        Inl NoRespondersError"
    using assms(2) by (simp add: ack_of_def)
  have res: "ack_of parse_json_response (client (self s) (length (requests (trace s)) + k) ?r) =
      Inr pub_ack"
    using assms(3,4,5) by (simp add: ack_of_def)
  have ne: "(Inr pub_ack :: error + PubAck) \<noteq> Inl NoRespondersError"
    by simp
  note e = publish_stop [OF assms(1) fail res ne, of msg_id retry_wait]
  show ?thesis
    unfolding e by (simp add: requests_append requests_replicate)
qed

text \<open>Two retries, success on the third and last attempt.\<close>

theorem publish_returns_ack_after_retries_witness:
  "int 2 < 3 \<and>
   client (self (example_state (flaky 2 (Inr \<lparr>data = ''{}''\<rparr>)) []))
       (length (requests (trace (example_state (flaky 2 (Inr \<lparr>data = ''{}''\<rparr>)) []))) + 0)
       (outgoing_request example_header (example_state (flaky 2 (Inr \<lparr>data = ''{}''\<rparr>)) [])
          ''ORDERS.new'' ''hello'' None None None None None None) = Inl NoRespondersError \<and>
   client (self (example_state (flaky 2 (Inr \<lparr>data = ''{}''\<rparr>)) []))
       (length (requests (trace (example_state (flaky 2 (Inr \<lparr>data = ''{}''\<rparr>)) []))) + 1)
       (outgoing_request example_header (example_state (flaky 2 (Inr \<lparr>data = ''{}''\<rparr>)) [])
          ''ORDERS.new'' ''hello'' None None None None None None) = Inl NoRespondersError \<and>
   client (self (example_state (flaky 2 (Inr \<lparr>data = ''{}''\<rparr>)) []))
       (length (requests (trace (example_state (flaky 2 (Inr \<lparr>data = ''{}''\<rparr>)) []))) + 2)
       (outgoing_request example_header (example_state (flaky 2 (Inr \<lparr>data = ''{}''\<rparr>)) [])
          ''ORDERS.new'' ''hello'' None None None None None None) = Inr \<lparr>data = ''{}''\<rparr> \<and>
   (\<lambda>b. Inr (example_ack (Some ''ORDERS'')) :: error + PubAck) (data \<lparr>data = ''{}''\<rparr>) =
      Inr (example_ack (Some ''ORDERS'')) \<and>
   stream (example_ack (Some ''ORDERS'')) \<noteq> None \<and>
   fst (publish example_header (\<lambda>b. Inr (example_ack (Some ''ORDERS'')))
      (example_state (flaky 2 (Inr \<lparr>data = ''{}''\<rparr>)) [])
      ''ORDERS.new'' ''hello'' None None None None None None None 3 (1/4)) =
     Inr (example_ack (Some ''ORDERS'')) \<and>
   trace (snd (publish example_header (\<lambda>b. Inr (example_ack (Some ''ORDERS'')))
      (example_state (flaky 2 (Inr \<lparr>data = ''{}''\<rparr>)) [])
      ''ORDERS.new'' ''hello'' None None None None None None None 3 (1/4))) =
     [EvRequest (Request ''ORDERS.new'' ''hello'' 1 None), EvSleep (1/4),
      EvRequest (Request ''ORDERS.new'' ''hello'' 1 None), EvSleep (1/4),
      EvRequest (Request ''ORDERS.new'' ''hello'' 1 None)]"
proof -
  let ?s = "example_state (flaky 2 (Inr \<lparr>data = ''{}''\<rparr>)) []"
  let ?r = "outgoing_request example_header ?s ''ORDERS.new'' ''hello'' None None None None
      None None"
  have h1: "int 2 < 3" by simp
  have h2: "\<forall>i < 2. client (self ?s) (length (requests (trace ?s)) + i) ?r = Inl NoRespondersError"
    by (simp add: example_state_simps flaky_def)
  have h3: "client (self ?s) (length (requests (trace ?s)) + 2) ?r = Inr \<lparr>data = ''{}''\<rparr>"
    by (simp add: example_state_simps flaky_def)
  have h4: "(\<lambda>b. Inr (example_ack (Some ''ORDERS'')) :: error + PubAck) (data \<lparr>data = ''{}''\<rparr>) =
      Inr (example_ack (Some ''ORDERS''))"
    by simp
  have h5: "stream (example_ack (Some ''ORDERS'')) \<noteq> None"
    by (simp add: example_ack_def)
  show ?thesis
    using h1 h2 h3 h4 h5
      publish_returns_ack_after_retries [OF h1 h2 h3 h4 h5, of None "1/4"]
    unfolding example_request_plain example_state_simps
    by (simp add: eval_nat_numeral flaky_def)
qed

text \<open>
  C9. An ack whose stream is the empty string is returned as a valid ack; for a reply
  that decodes to an ack, \<open>InvalidAckError\<close> is raised exactly when the stream is \<open>None\<close>.
\<close>

theorem publish_empty_stream_is_valid:
  assumes "int k < retry_attempts"
    and "\<forall>i < k. client (self s) (length (requests (trace s)) + i)
          (outgoing_request H s subject payload tmo headers expected_last_msg_id
             expected_stream expected_last_sequence expected_last_subject_sequence) =
          Inl NoRespondersError"
    and "client (self s) (length (requests (trace s)) + k)
          (outgoing_request H s subject payload tmo headers expected_last_msg_id
             expected_stream expected_last_sequence expected_last_subject_sequence) = Inr msg"
    and "parse_json_response (data msg) = Inr pub_ack"
  shows "(stream pub_ack = Some [] \<longrightarrow>
            fst (publish H parse_json_response s subject payload msg_id tmo headers
             expected_last_msg_id expected_stream expected_last_sequence
             expected_last_subject_sequence retry_attempts retry_wait) = Inr pub_ack) \<and>
         (fst (publish H parse_json_response s subject payload msg_id tmo headers
             expected_last_msg_id expected_stream expected_last_sequence
             expected_last_subject_sequence retry_attempts retry_wait) = Inl InvalidAckError
            \<longleftrightarrow> stream pub_ack = None)"
proof -
  let ?r = "outgoing_request H s subject payload tmo headers expected_last_msg_id
      expected_stream expected_last_sequence expected_last_subject_sequence"
  have fail: "\<forall>i < k.
      ack_of parse_json_response (client (self s) (length (requests (trace s)) + i) ?r) =
        Inl NoRespondersError"
    using assms(2) by (simp add: ack_of_def)
  let ?res = "if stream pub_ack = None then Inl InvalidAckError else Inr pub_ack"
  have res: "ack_of parse_json_response (client (self s) (length (requests (trace s)) + k) ?r) =
      ?res"
    using assms(3,4) by (simp add: ack_of_def)
  have ne: "?res \<noteq> Inl NoRespondersError"
    by simp
  note e = publish_stop [OF assms(1) fail res ne, of msg_id retry_wait]
  show ?thesis
    unfolding e by auto
qed

text \<open>An ack with the empty stream name on the first attempt.\<close>

theorem publish_empty_stream_is_valid_witness:
  "int 0 < 1 \<and>
   client (self (example_state (flaky 0 (Inr \<lparr>data = ''{}''\<rparr>)) []))
       (length (requests (trace (example_state (flaky 0 (Inr \<lparr>data = ''{}''\<rparr>)) []))) + 0)
       (outgoing_request example_header (example_state (flaky 0 (Inr \<lparr>data = ''{}''\<rparr>)) [])
          ''ORDERS.new'' ''hello'' None None None None None None) = Inr \<lparr>data = ''{}''\<rparr> \<and>
   (\<lambda>b. Inr (example_ack (Some [])) :: error + PubAck) (data \<lparr>data = ''{}''\<rparr>) =
      Inr (example_ack (Some [])) \<and>
   stream (example_ack (Some [])) = Some [] \<and>
   fst (publish example_header (\<lambda>b. Inr (example_ack (Some [])))
      (example_state (flaky 0 (Inr \<lparr>data = ''{}''\<rparr>)) [])
      ''ORDERS.new'' ''hello'' None None None None None None None 1 (1/4)) =
     Inr (example_ack (Some [])) \<and>
   fst (publish example_header (\<lambda>b. Inr (example_ack (Some [])))
      (example_state (flaky 0 (Inr \<lparr>data = ''{}''\<rparr>)) [])
      ''ORDERS.new'' ''hello'' None None None None None None None 1 (1/4)) \<noteq>
     Inl InvalidAckError"
proof -
  let ?s = "example_state (flaky 0 (Inr \<lparr>data = ''{}''\<rparr>)) []"
  let ?r = "outgoing_request example_header ?s ''ORDERS.new'' ''hello'' None None None None
      None None"
  have h1: "int 0 < 1" by simp
  have h2: "\<forall>i < 0. client (self ?s) (length (requests (trace ?s)) + i) ?r = Inl NoRespondersError"
    by (simp add: example_state_simps flaky_def)
  have h3: "client (self ?s) (length (requests (trace ?s)) + 0) ?r = Inr \<lparr>data = ''{}''\<rparr>"
    by (simp add: example_state_simps flaky_def)
  have h4: "(\<lambda>b. Inr (example_ack (Some [])) :: error + PubAck) (data \<lparr>data = ''{}''\<rparr>) =
      Inr (example_ack (Some []))"
    by simp
  show ?thesis
    using h1 h2 h3 h4
      publish_empty_stream_is_valid [OF h1 h2 h3 h4, of None "1/4"]
    unfolding example_request_plain example_state_simps
    by (simp add: example_ack_def flaky_def)
qed

text \<open>
  C8. With \<open>retry_attempts = 0\<close> the loop body never runs: \<open>publish\<close> makes no request
  and raises \<open>NoStreamResponseError\<close> at once. (That at least one request is made with zero attempts
  does not hold of the code.)
\<close>

theorem publish_zero_attempts:
  "fst (publish H parse_json_response s subject payload msg_id tmo headers
             expected_last_msg_id expected_stream expected_last_sequence
             expected_last_subject_sequence 0 retry_wait) = Inl NoStreamResponseError \<and>
   trace (snd (publish H parse_json_response s subject payload msg_id tmo headers
             expected_last_msg_id expected_stream expected_last_sequence
             expected_last_subject_sequence 0 retry_wait)) = trace s"
proof -
  obtain h' s1 where b: "build_headers H headers expected_last_msg_id expected_stream
      expected_last_sequence expected_last_subject_sequence s = (h', s1)"
    by (cases "build_headers H headers expected_last_msg_id expected_stream
      expected_last_sequence expected_last_subject_sequence s")
  from build_headers_frame [OF b] have "trace s1 = trace s"
    by simp
  then show ?thesis
    by (simp add: publish_unfold(1) [OF b])
qed

text \<open>No request is made with zero attempts, even on a transport that would answer at once.\<close>

theorem publish_zero_attempts_counterexample:
  "\<not> 1 \<le> length (requests (trace (snd
      (publish example_header (\<lambda>b. Inr (example_ack (Some ''ORDERS'')))
         (example_state (flaky 0 (Inr \<lparr>data = ''{}''\<rparr>)) [])
         ''ORDERS.new'' ''hello'' None None None None None None None 0 (1/4)))))"
proof -
  obtain h' s1 where b: "build_headers example_header None None None None None
      (example_state (flaky 0 (Inr \<lparr>data = ''{}''\<rparr>)) []) = (h', s1)"
    by (cases "build_headers example_header None None None None None
      (example_state (flaky 0 (Inr \<lparr>data = ''{}''\<rparr>)) [])")
  from build_headers_frame [OF b] have "trace s1 = []"
    by (simp add: example_state_simps)
  then show ?thesis
    by (simp add: publish_unfold(1) [OF b])
qed

subsection \<open>Headers and the message id\<close>

text \<open>
  C5. The parameter \<open>id\<close> is never read: the result of \<open>publish\<close> and every request it
  makes are the same as without an id, so the id reaches the transport neither as a field
  of its own nor in a header.
\<close>

theorem publish_ignores_id:
  "publish H parse_json_response s subject payload msg_id tmo headers
             expected_last_msg_id expected_stream expected_last_sequence
             expected_last_subject_sequence retry_attempts retry_wait =
   publish H parse_json_response s subject payload None tmo headers
             expected_last_msg_id expected_stream expected_last_sequence
             expected_last_subject_sequence retry_attempts retry_wait"
  by (simp add: publish_def)

text \<open>
  C6. Every request of a call carries the same header set. When at least one
  expectation parameter is present, it is the expectation headers with the caller's headers
  stored on top, so the caller's value is sent under a key that both have; when none is
  present, it is the caller's headers unchanged (possibly absent).
\<close>

theorem publish_headers_merge:
  assumes "valid_headers s headers"
  shows "(\<exists>m. requests (trace (snd (publish H parse_json_response s subject payload msg_id tmo headers
             expected_last_msg_id expected_stream expected_last_sequence
             expected_last_subject_sequence retry_attempts retry_wait))) =
            requests (trace s) @ replicate m
              (outgoing_request H s subject payload tmo headers expected_last_msg_id
             expected_stream expected_last_sequence expected_last_subject_sequence) \<and>
            (1 \<le> retry_attempts \<longrightarrow> 0 < m)) \<and>
         (if expected_last_msg_id = None \<and> expected_stream = None \<and>
             expected_last_sequence = None \<and> expected_last_subject_sequence = None
          then req_headers (outgoing_request H s subject payload tmo headers expected_last_msg_id
             expected_stream expected_last_sequence expected_last_subject_sequence) = caller_headers s headers
          else req_headers (outgoing_request H s subject payload tmo headers expected_last_msg_id
             expected_stream expected_last_sequence expected_last_subject_sequence) =
                 Some (dict_update (expectation_headers H expected_last_msg_id expected_stream
                expected_last_sequence expected_last_subject_sequence)
                   (items (caller_headers s headers))) \<and>
               map_of (dict_update (expectation_headers H expected_last_msg_id expected_stream
                expected_last_sequence expected_last_subject_sequence)
                   (items (caller_headers s headers))) =
                 map_of (expectation_headers H expected_last_msg_id expected_stream
                expected_last_sequence expected_last_subject_sequence) ++
                 map_of (items (caller_headers s headers)) \<and>
               (\<forall>k v. lookup (caller_headers s headers) k = Some v \<longrightarrow>
                  lookup (req_headers (outgoing_request H s subject payload tmo headers expected_last_msg_id
             expected_stream expected_last_sequence expected_last_subject_sequence)) k = Some v))"
proof -
  let ?x = "(expectation_headers H expected_last_msg_id expected_stream
                expected_last_sequence expected_last_subject_sequence)"
  let ?c = "items (caller_headers s headers)"
  have sent: "(\<exists>m. requests (trace (snd (publish H parse_json_response s subject payload msg_id tmo headers
             expected_last_msg_id expected_stream expected_last_sequence
             expected_last_subject_sequence retry_attempts retry_wait))) =
            requests (trace s) @ replicate m
              (outgoing_request H s subject payload tmo headers expected_last_msg_id
             expected_stream expected_last_sequence expected_last_subject_sequence) \<and>
            (1 \<le> retry_attempts \<longrightarrow> 0 < m))"
    by (rule publish_requests)
  have m: "map_of (dict_update ?x ?c) = map_of ?x ++ map_of ?c"
    using assms by (simp add: map_of_dict_update_distinct valid_headers_items)
  have win: "lookup (Some (dict_update ?x ?c)) k = Some v"
    if "lookup (caller_headers s headers) k = Some v" for k v
  proof -
    have "lookup (Some (dict_update ?x ?c)) k = map_of (dict_update ?x ?c) k"
      by (simp add: lookup_def)
    also have "\<dots> = (map_of ?x ++ map_of ?c) k"
      by (simp only: m)
    also have "\<dots> = Some v"
      using that by (simp add: lookup_items)
    finally show ?thesis .
  qed
  let ?none = "expected_last_msg_id = None \<and> expected_stream = None \<and>
      expected_last_sequence = None \<and> expected_last_subject_sequence = None"
  show ?thesis
  proof (cases "?x = []")
    case True
    then have none: ?none
      by (simp add: expectation_headers_empty)
    have h: "req_headers (outgoing_request H s subject payload tmo headers expected_last_msg_id
             expected_stream expected_last_sequence expected_last_subject_sequence) = caller_headers s headers"
      using True by (simp add: outgoing_request_eq [OF assms])
    show ?thesis
      unfolding if_P [OF none] using sent h by blast
  next
    case False
    then have some: "\<not> ?none"
      by (simp add: expectation_headers_empty)
    have h: "req_headers (outgoing_request H s subject payload tmo headers expected_last_msg_id
             expected_stream expected_last_sequence expected_last_subject_sequence) = Some (dict_update ?x ?c)"
      using False by (simp add: outgoing_request_eq [OF assms])
    have "\<forall>k v. lookup (caller_headers s headers) k = Some v \<longrightarrow>
        lookup (req_headers (outgoing_request H s subject payload tmo headers expected_last_msg_id
             expected_stream expected_last_sequence expected_last_subject_sequence)) k = Some v"
      unfolding h using win by blast
    then show ?thesis
      unfolding if_not_P [OF some] using sent h m by blast
  qed
qed

text \<open>The caller's \<open>7\<close> under the expected last sequence wins over the parameter \<open>5\<close>.\<close>

theorem publish_headers_merge_witness:
  "valid_headers (example_state (flaky 0 (Inr \<lparr>data = ''{}''\<rparr>)) [example_dict]) (Some 0) \<and>
   req_headers (outgoing_request example_header (example_state (flaky 0 (Inr \<lparr>data = ''{}''\<rparr>)) [example_dict])
        ''ORDERS.new'' ''hello'' None (Some 0) None (Some ''ORDERS'') (Some 5) None) =
     Some [(''Nats-Expected-Stream'', ''ORDERS''), (''Nats-Expected-Last-Sequence'', ''7''),
        (''Trace-Id'', ''abc'')] \<and>
   lookup (req_headers (outgoing_request example_header (example_state (flaky 0 (Inr \<lparr>data = ''{}''\<rparr>)) [example_dict])
        ''ORDERS.new'' ''hello'' None (Some 0) None (Some ''ORDERS'') (Some 5) None))
     ''Nats-Expected-Last-Sequence'' = Some ''7''"
proof -
  have h: "valid_headers (example_state (flaky 0 (Inr \<lparr>data = ''{}''\<rparr>)) [example_dict]) (Some 0)"
    by (rule valid_headers_example)
  note t = publish_headers_merge [where H = example_header and s = "example_state (flaky 0 (Inr \<lparr>data = ''{}''\<rparr>)) [example_dict]" and headers = "Some 0"
        and parse_json_response = "\<lambda>b. Inr (example_ack (Some ''ORDERS''))" and subject = "''ORDERS.new''"
        and payload = "''hello''" and msg_id = None and tmo = None
        and expected_last_msg_id = None and expected_stream = "Some ''ORDERS''"
        and expected_last_sequence = "Some 5" and expected_last_subject_sequence = None
        and retry_attempts = 2 and retry_wait = "1/4", OF h]
  from t have r: "req_headers (outgoing_request example_header (example_state (flaky 0 (Inr \<lparr>data = ''{}''\<rparr>)) [example_dict])
        ''ORDERS.new'' ''hello'' None (Some 0) None (Some ''ORDERS'') (Some 5) None) =
      Some (dict_update (expectation_headers example_header None (Some ''ORDERS'') (Some 5) None)
        (items (caller_headers (example_state (flaky 0 (Inr \<lparr>data = ''{}''\<rparr>)) [example_dict]) (Some 0))))"
    by simp
  have e: "dict_update (expectation_headers example_header None (Some ''ORDERS'') (Some 5) None)
        (items (caller_headers (example_state (flaky 0 (Inr \<lparr>data = ''{}''\<rparr>)) [example_dict]) (Some 0))) =
      [(''Nats-Expected-Stream'', ''ORDERS''), (''Nats-Expected-Last-Sequence'', ''7''),
       (''Trace-Id'', ''abc'')]"
    by (simp add: expectation_headers_def example_header_def setitem_def dict_update_def
      caller_headers_def items_def example_state_simps example_dict_def str_int_5 str_str_def)
  show ?thesis
    unfolding r e using h by (simp add: lookup_def)
qed

text \<open>
  C7. For each of the four reserved keys (pairwise distinct), the request carries under it:
  the caller's value when the caller's headers carry that key; otherwise the string of the
  expectation parameter when it is present (5 is sent as \<open>5\<close>), and no header when it is
  omitted. (That a present expectation parameter is always the value sent does not hold of
  the code.)
\<close>

theorem publish_expectation_headers:
  assumes "valid_headers s headers"
    and "distinct [EXPECTED_LAST_MSG_ID H, EXPECTED_STREAM H, EXPECTED_LAST_SEQ H,
      EXPECTED_LAST_SUBJECT_SEQUENCE H]"
  shows "(\<exists>m. requests (trace (snd (publish H parse_json_response s subject payload msg_id tmo headers
             expected_last_msg_id expected_stream expected_last_sequence
             expected_last_subject_sequence retry_attempts retry_wait))) =
            requests (trace s) @ replicate m
              (outgoing_request H s subject payload tmo headers expected_last_msg_id
             expected_stream expected_last_sequence expected_last_subject_sequence) \<and>
            (1 \<le> retry_attempts \<longrightarrow> 0 < m)) \<and>
         lookup (req_headers (outgoing_request H s subject payload tmo headers expected_last_msg_id
             expected_stream expected_last_sequence expected_last_subject_sequence))
             (EXPECTED_LAST_MSG_ID H) =
           (case lookup (caller_headers s headers) (EXPECTED_LAST_MSG_ID H) of
              None \<Rightarrow> map_option str_str expected_last_msg_id
            | Some v \<Rightarrow> Some v) \<and>
         lookup (req_headers (outgoing_request H s subject payload tmo headers expected_last_msg_id
             expected_stream expected_last_sequence expected_last_subject_sequence))
             (EXPECTED_STREAM H) =
           (case lookup (caller_headers s headers) (EXPECTED_STREAM H) of
              None \<Rightarrow> map_option str_str expected_stream
            | Some v \<Rightarrow> Some v) \<and>
         lookup (req_headers (outgoing_request H s subject payload tmo headers expected_last_msg_id
             expected_stream expected_last_sequence expected_last_subject_sequence))
             (EXPECTED_LAST_SEQ H) =
           (case lookup (caller_headers s headers) (EXPECTED_LAST_SEQ H) of
              None \<Rightarrow> map_option str_int expected_last_sequence
            | Some v \<Rightarrow> Some v) \<and>
         lookup (req_headers (outgoing_request H s subject payload tmo headers expected_last_msg_id
             expected_stream expected_last_sequence expected_last_subject_sequence))
             (EXPECTED_LAST_SUBJECT_SEQUENCE H) =
           (case lookup (caller_headers s headers) (EXPECTED_LAST_SUBJECT_SEQUENCE H) of
              None \<Rightarrow> map_option str_int expected_last_subject_sequence
            | Some v \<Rightarrow> Some v)"
proof -
  have sent: "(\<exists>m. requests (trace (snd (publish H parse_json_response s subject payload msg_id tmo headers
             expected_last_msg_id expected_stream expected_last_sequence
             expected_last_subject_sequence retry_attempts retry_wait))) =
            requests (trace s) @ replicate m
              (outgoing_request H s subject payload tmo headers expected_last_msg_id
             expected_stream expected_last_sequence expected_last_subject_sequence) \<and>
            (1 \<le> retry_attempts \<longrightarrow> 0 < m))"
    by (rule publish_requests)
  note a = outgoing_lookup [OF assms(1)]
  note x = expectation_headers_lookup [OF assms(2)]
  show ?thesis
    unfolding a x using sent by simp
qed

text \<open>
  Without caller's headers, the expected last sequence 5 is sent as \<open>5\<close> and the omitted
  expected stream gives no header. With a caller's dict that carries \<open>7\<close> under the key of
  the expected last sequence, \<open>7\<close> is sent under that key, the expected stream under its own
  key, and nothing under the key of the omitted last message id.
\<close>

theorem publish_expectation_headers_witness:
  "valid_headers (example_state (flaky 0 (Inr \<lparr>data = ''{}''\<rparr>)) []) None \<and>
   valid_headers (example_state (flaky 0 (Inr \<lparr>data = ''{}''\<rparr>)) [example_dict]) (Some 0) \<and>
   distinct [EXPECTED_LAST_MSG_ID example_header, EXPECTED_STREAM example_header,
      EXPECTED_LAST_SEQ example_header, EXPECTED_LAST_SUBJECT_SEQUENCE example_header] \<and>
   lookup (req_headers (outgoing_request example_header (example_state (flaky 0 (Inr \<lparr>data = ''{}''\<rparr>)) [])
        ''ORDERS.new'' ''hello'' None None None None (Some 5) None))
     (EXPECTED_LAST_SEQ example_header) = Some ''5'' \<and>
   lookup (req_headers (outgoing_request example_header (example_state (flaky 0 (Inr \<lparr>data = ''{}''\<rparr>)) [])
        ''ORDERS.new'' ''hello'' None None None None (Some 5) None))
     (EXPECTED_STREAM example_header) = None \<and>
   lookup (caller_headers (example_state (flaky 0 (Inr \<lparr>data = ''{}''\<rparr>)) [example_dict]) (Some 0))
     (EXPECTED_LAST_SEQ example_header) = Some ''7'' \<and>
   lookup (req_headers (outgoing_request example_header (example_state (flaky 0 (Inr \<lparr>data = ''{}''\<rparr>)) [example_dict])
        ''ORDERS.new'' ''hello'' None (Some 0) None (Some ''ORDERS'') (Some 5) None))
     (EXPECTED_LAST_SEQ example_header) = Some ''7'' \<and>
   lookup (req_headers (outgoing_request example_header (example_state (flaky 0 (Inr \<lparr>data = ''{}''\<rparr>)) [example_dict])
        ''ORDERS.new'' ''hello'' None (Some 0) None (Some ''ORDERS'') (Some 5) None))
     (EXPECTED_STREAM example_header) = Some ''ORDERS'' \<and>
   lookup (req_headers (outgoing_request example_header (example_state (flaky 0 (Inr \<lparr>data = ''{}''\<rparr>)) [example_dict])
        ''ORDERS.new'' ''hello'' None (Some 0) None (Some ''ORDERS'') (Some 5) None))
     (EXPECTED_LAST_MSG_ID example_header) = None"
proof -
  have h0: "valid_headers (example_state (flaky 0 (Inr \<lparr>data = ''{}''\<rparr>)) []) None"
    by (simp add: valid_headers_def)
  have h1: "valid_headers (example_state (flaky 0 (Inr \<lparr>data = ''{}''\<rparr>)) [example_dict]) (Some 0)"
    by (rule valid_headers_example)
  have h2: "distinct [EXPECTED_LAST_MSG_ID example_header, EXPECTED_STREAM example_header,
      EXPECTED_LAST_SEQ example_header, EXPECTED_LAST_SUBJECT_SEQUENCE example_header]"
    by (rule example_header_distinct)
  note t0 = publish_expectation_headers [where H = example_header and s = "example_state (flaky 0 (Inr \<lparr>data = ''{}''\<rparr>)) []" and headers = "None"
        and parse_json_response = "\<lambda>b. Inr (example_ack (Some ''ORDERS''))" and subject = "''ORDERS.new''"
        and payload = "''hello''" and msg_id = None and tmo = None
        and expected_last_msg_id = None and expected_stream = "None"
        and expected_last_sequence = "Some 5" and expected_last_subject_sequence = None
        and retry_attempts = 2 and retry_wait = "1/4", OF h0 h2]
  note t1 = publish_expectation_headers [where H = example_header and s = "example_state (flaky 0 (Inr \<lparr>data = ''{}''\<rparr>)) [example_dict]" and headers = "Some 0"
        and parse_json_response = "\<lambda>b. Inr (example_ack (Some ''ORDERS''))" and subject = "''ORDERS.new''"
        and payload = "''hello''" and msg_id = None and tmo = None
        and expected_last_msg_id = None and expected_stream = "Some ''ORDERS''"
        and expected_last_sequence = "Some 5" and expected_last_subject_sequence = None
        and retry_attempts = 2 and retry_wait = "1/4", OF h1 h2]
  from t0 have a: "lookup (req_headers (outgoing_request example_header (example_state (flaky 0 (Inr \<lparr>data = ''{}''\<rparr>)) [])
        ''ORDERS.new'' ''hello'' None None None None (Some 5) None))
       (EXPECTED_LAST_SEQ example_header) = Some ''5''"
    "lookup (req_headers (outgoing_request example_header (example_state (flaky 0 (Inr \<lparr>data = ''{}''\<rparr>)) [])
        ''ORDERS.new'' ''hello'' None None None None (Some 5) None))
       (EXPECTED_STREAM example_header) = None"
    by (simp_all add: example_lookups str_int_5)
  from t1 have b: "lookup (req_headers (outgoing_request example_header (example_state (flaky 0 (Inr \<lparr>data = ''{}''\<rparr>)) [example_dict])
        ''ORDERS.new'' ''hello'' None (Some 0) None (Some ''ORDERS'') (Some 5) None))
       (EXPECTED_LAST_SEQ example_header) = Some ''7''"
    "lookup (req_headers (outgoing_request example_header (example_state (flaky 0 (Inr \<lparr>data = ''{}''\<rparr>)) [example_dict])
        ''ORDERS.new'' ''hello'' None (Some 0) None (Some ''ORDERS'') (Some 5) None))
       (EXPECTED_STREAM example_header) = Some ''ORDERS''"
    "lookup (req_headers (outgoing_request example_header (example_state (flaky 0 (Inr \<lparr>data = ''{}''\<rparr>)) [example_dict])
        ''ORDERS.new'' ''hello'' None (Some 0) None (Some ''ORDERS'') (Some 5) None))
       (EXPECTED_LAST_MSG_ID example_header) = None"
    by (simp_all add: example_lookups str_str_def)
  show ?thesis
    using h0 h1 h2 a b by (simp add: example_lookups)
qed

text \<open>With a caller's header under the key of the expected last sequence, the request carries the caller's \<open>7\<close> and not \<open>5\<close>.\<close>

theorem publish_expectation_headers_counterexample:
  "requests (trace (snd (publish example_header (\<lambda>b. Inr (example_ack (Some ''ORDERS'')))
        (example_state (flaky 0 (Inr \<lparr>data = ''{}''\<rparr>)) [example_dict])
        ''ORDERS.new'' ''hello'' None None (Some 0) None (Some ''ORDERS'') (Some 5) None 2 (1/4)))) =
     [Request ''ORDERS.new'' ''hello'' 1
       (Some [(''Nats-Expected-Stream'', ''ORDERS''), (''Nats-Expected-Last-Sequence'', ''7''),
        (''Trace-Id'', ''abc'')])] \<and>
   lookup (Some [(''Nats-Expected-Stream'', ''ORDERS''), (''Nats-Expected-Last-Sequence'', ''7''),
        (''Trace-Id'', ''abc'')])
     (EXPECTED_LAST_SEQ example_header) \<noteq> Some (str_int 5)"
proof -
  let ?s = "example_state (flaky 0 (Inr \<lparr>data = ''{}''\<rparr>)) [example_dict]"
  let ?r = "outgoing_request example_header (example_state (flaky 0 (Inr \<lparr>data = ''{}''\<rparr>)) [example_dict])
        ''ORDERS.new'' ''hello'' None (Some 0) None (Some ''ORDERS'') (Some 5) None"
  let ?p = "\<lambda>b. Inr (example_ack (Some ''ORDERS''))"
  have k: "int 0 < 2" by simp
  have fail: "\<forall>i < 0. ack_of ?p (client (self ?s) (length (requests (trace ?s)) + i) ?r) =
      Inl NoRespondersError"
    by simp
  have res: "ack_of ?p (client (self ?s) (length (requests (trace ?s)) + 0) ?r) =
      Inr (example_ack (Some ''ORDERS''))"
    by (simp add: ack_of_def example_state_simps flaky_def example_ack_def)
  have ne: "(Inr (example_ack (Some ''ORDERS'')) :: error + PubAck) \<noteq> Inl NoRespondersError"
    by simp
  have "trace (snd (publish example_header (\<lambda>b. Inr (example_ack (Some ''ORDERS'')))
        (example_state (flaky 0 (Inr \<lparr>data = ''{}''\<rparr>)) [example_dict])
        ''ORDERS.new'' ''hello'' None None (Some 0) None (Some ''ORDERS'') (Some 5) None 2 (1/4))) =
      trace ?s @ concat (replicate 0 [EvRequest ?r, EvSleep (1/4)]) @ [EvRequest ?r]"
    by (rule publish_stop(2) [OF k fail res ne])
  then have 1: "requests (trace (snd (publish example_header (\<lambda>b. Inr (example_ack (Some ''ORDERS'')))
        (example_state (flaky 0 (Inr \<lparr>data = ''{}''\<rparr>)) [example_dict])
        ''ORDERS.new'' ''hello'' None None (Some 0) None (Some ''ORDERS'') (Some 5) None 2 (1/4)))) =
      [Request ''ORDERS.new'' ''hello'' 1
        (Some [(''Nats-Expected-Stream'', ''ORDERS''), (''Nats-Expected-Last-Sequence'', ''7''),
        (''Trace-Id'', ''abc'')])]"
    unfolding example_request_merged by (simp add: example_state_simps)
  have 2: "lookup (Some [(''Nats-Expected-Stream'', ''ORDERS''), (''Nats-Expected-Last-Sequence'', ''7''),
        (''Trace-Id'', ''abc'')])
     (EXPECTED_LAST_SEQ example_header) \<noteq> Some (str_int 5)"
    by (simp add: lookup_def example_header_def str_int_5)
  from 1 2 show ?thesis ..
qed

subsection \<open>What a call leaves unchanged\<close>

text \<open>
  C10. Whatever the outcome, the publisher is unchanged after the call and so is every
  dict that was in the store before it, the caller's headers among them: the merge writes
  only to the fresh dict.
\<close>

theorem publish_frame_unchanged:
  "self (snd (publish H parse_json_response s subject payload msg_id tmo headers
             expected_last_msg_id expected_stream expected_last_sequence
             expected_last_subject_sequence retry_attempts retry_wait)) = self s \<and>
   take (length (heap s)) (heap (snd (publish H parse_json_response s subject payload msg_id tmo headers
             expected_last_msg_id expected_stream expected_last_sequence
             expected_last_subject_sequence retry_attempts retry_wait))) = heap s \<and>
   (\<forall>a. headers = Some a \<and> a < length (heap s) \<longrightarrow>
      heap (snd (publish H parse_json_response s subject payload msg_id tmo headers
             expected_last_msg_id expected_stream expected_last_sequence
             expected_last_subject_sequence retry_attempts retry_wait)) ! a = heap s ! a)"
proof -
  let ?s' = "snd (publish H parse_json_response s subject payload msg_id tmo headers
             expected_last_msg_id expected_stream expected_last_sequence
             expected_last_subject_sequence retry_attempts retry_wait)"
  have f: "self ?s' = self s" "take (length (heap s)) (heap ?s') = heap s"
    by (rule publish_frame)+
  have "heap ?s' ! a = heap s ! a" if "a < length (heap s)" for a
  proof -
    from that have "take (length (heap s)) (heap ?s') ! a = heap ?s' ! a"
      by simp
    then show ?thesis
      by (simp only: f(2))
  qed
  with f show ?thesis
    by blast
qed

text \<open>The caller's dict after a call that merged it into the expectation headers.\<close>

theorem publish_frame_unchanged_witness:
  "Some (0::nat) = Some 0 \<and> 0 < length (heap (example_state (flaky 0 (Inr \<lparr>data = ''{}''\<rparr>)) [example_dict])) \<and>
   self (snd (publish example_header (\<lambda>b. Inr (example_ack (Some ''ORDERS'')))
        (example_state (flaky 0 (Inr \<lparr>data = ''{}''\<rparr>)) [example_dict])
        ''ORDERS.new'' ''hello'' None None (Some 0) None (Some ''ORDERS'') (Some 5) None 2 (1/4))) =
     \<lparr>client = flaky 0 (Inr \<lparr>data = ''{}''\<rparr>), timeout = 1\<rparr> \<and>
   heap (snd (publish example_header (\<lambda>b. Inr (example_ack (Some ''ORDERS'')))
        (example_state (flaky 0 (Inr \<lparr>data = ''{}''\<rparr>)) [example_dict])
        ''ORDERS.new'' ''hello'' None None (Some 0) None (Some ''ORDERS'') (Some 5) None 2 (1/4))) ! 0 = example_dict"
proof -
  have h: "Some (0::nat) = Some 0 \<and> 0 < length (heap (example_state (flaky 0 (Inr \<lparr>data = ''{}''\<rparr>)) [example_dict]))"
    by (simp add: example_state_simps)
  note t = publish_frame_unchanged [where H = example_header and s = "example_state (flaky 0 (Inr \<lparr>data = ''{}''\<rparr>)) [example_dict]" and headers = "Some 0"
        and parse_json_response = "\<lambda>b. Inr (example_ack (Some ''ORDERS''))" and subject = "''ORDERS.new''"
        and payload = "''hello''" and msg_id = None and tmo = None
        and expected_last_msg_id = None and expected_stream = "Some ''ORDERS''"
        and expected_last_sequence = "Some 5" and expected_last_subject_sequence = None
        and retry_attempts = 2 and retry_wait = "1/4"]
  from t h have "heap (snd (publish example_header (\<lambda>b. Inr (example_ack (Some ''ORDERS'')))
        (example_state (flaky 0 (Inr \<lparr>data = ''{}''\<rparr>)) [example_dict])
        ''ORDERS.new'' ''hello'' None None (Some 0) None (Some ''ORDERS'') (Some 5) None 2 (1/4))) ! 0 =
      heap (example_state (flaky 0 (Inr \<lparr>data = ''{}''\<rparr>)) [example_dict]) ! 0"
    by blast
  with t h show ?thesis
    by (simp add: example_state_simps)
qed

end
